theory Spec2Isabelle
  imports Complex_Main "HOL-Library.AList" "HOL-Library.Char_ord" "HOL-Library.List_Lexorder"
    "HOL-Library.Sublist"
begin

section \<open>The Python values the program works with\<close>

text \<open>
  The program is one Python file, \<^verbatim>\<open>main.py\<close>: \<^verbatim>\<open>solve_problem_using_pulp\<close> builds a
  transportation model with the PuLP library, has it solved, and prints a report; two
  helper functions print the conclusions of the sensitivity analysis.

  Location codes and names are Python strings, modelled as \<^typ>\<open>string\<close>; a character
  stands for a code point below 256. The numbers of the data file and of the solver are
  modelled as \<^typ>\<open>real\<close>: the program only copies them, compares them with zero and takes
  absolute values. Exceptions are values of the type \<open>error\<close>.
\<close>

type_synonym location = string
type_synonym lane = "location \<times> location"

datatype error = KeyError | IndexError | ValueError | TypeError | AttributeError | PulpError

text \<open>
  One call of \<^verbatim>\<open>print\<close> is one item of output: \<open>Print\<close> holds the arguments of the call,
  strings and numbers, in order. Printing a data frame is an item that holds the rows of
  the frame.
\<close>

datatype arg = S string | N real

datatype out =
    Print "arg list"
  | PrintQuantity "(location \<times> location \<times> real) list"
  | PrintConstraints "(string \<times> real \<times> real) list"
  | PrintVariables "(string \<times> real \<times> real) list"

text \<open>
  A run of a printing function: what it printed, and the exception that ended it, if any.
  \<open>then_run\<close> is the sequence of two statements; the second only runs when the first
  raised nothing.
\<close>

type_synonym run = "out list \<times> error option"

definition then_run :: "run \<Rightarrow> run \<Rightarrow> run" where
  "then_run r1 r2 =
     (case snd r1 of
        Some e \<Rightarrow> r1
      | None \<Rightarrow> (fst r1 @ fst r2, snd r2))"

definition say :: "arg list \<Rightarrow> run" where
  "say args = ([Print args], None)"

definition raise :: "error \<Rightarrow> run" where
  "raise e = ([], Some e)"

definition seq :: "run list \<Rightarrow> run" where
  "seq rs = foldr then_run rs ([], None)"

definition newline :: string where
  "newline = [CHR 0x0A]"

text \<open>\<^verbatim>\<open>d[k]\<close> on a dictionary raises KeyError for a key that is not there.\<close>

definition getitem :: "('k \<rightharpoonup> 'v) \<Rightarrow> 'k \<Rightarrow> error + 'v" where
  "getitem m k = (case m k of None \<Rightarrow> Inl KeyError | Some v \<Rightarrow> Inr v)"

text \<open>
  A \<^verbatim>\<open>for\<close> loop whose body updates a state and may raise: the first exception ends the
  loop.
\<close>

fun for_each :: "'a list \<Rightarrow> ('a \<Rightarrow> 's \<Rightarrow> error + 's) \<Rightarrow> 's \<Rightarrow> error + 's" where
  "for_each [] body st = Inr st"
| "for_each (x # xs) body st =
     (case body x st of
        Inl e \<Rightarrow> Inl e
      | Inr st' \<Rightarrow> for_each xs body st')"

text \<open>
  A list comprehension whose element expression may raise: the elements are evaluated in
  order and the first exception ends the evaluation.
\<close>

fun comprehension :: "('a \<Rightarrow> error + 'b) \<Rightarrow> 'a list \<Rightarrow> error + 'b list" where
  "comprehension f [] = Inr []"
| "comprehension f (x # xs) =
     (case f x of
        Inl e \<Rightarrow> Inl e
      | Inr y \<Rightarrow>
         (case comprehension f xs of
            Inl e \<Rightarrow> Inl e
          | Inr ys \<Rightarrow> Inr (y # ys)))"

subsection \<open>\<^verbatim>\<open>repr\<close> and \<^verbatim>\<open>str\<close>\<close>

text \<open>
  \<^verbatim>\<open>LpVariable.dicts\<close> names a variable after \<^verbatim>\<open>str\<close> of its index, here a tuple of two
  strings; \<^verbatim>\<open>str\<close> of a tuple writes the \<^verbatim>\<open>repr\<close> of its components. \<^verbatim>\<open>repr\<close> of a
  string puts it in single quotes, or in double quotes when it holds a single quote and no
  double quote, and escapes the quote character, the backslash and the characters that
  are not printable.
\<close>

definition quote :: char where
  "quote = CHR 0x27"

definition dquote :: char where
  "dquote = CHR 0x22"

definition backslash :: char where
  "backslash = CHR 0x5C"

definition hex_digit :: "nat \<Rightarrow> char" where
  "hex_digit n = ''0123456789abcdef'' ! (n mod 16)"

definition hex_escape :: "char \<Rightarrow> string" where
  "hex_escape ch =
     [backslash, CHR ''x'', hex_digit ((of_char ch :: nat) div 16), hex_digit (of_char ch :: nat)]"

definition printable :: "char \<Rightarrow> bool" where
  "printable ch =
     (let n = (of_char ch :: nat) in
      (32 \<le> n \<and> n < 127) \<or> (161 \<le> n \<and> n \<noteq> 173))"

definition repr_char :: "char \<Rightarrow> char \<Rightarrow> string" where
  "repr_char q ch =
     (if ch = q \<or> ch = backslash then [backslash, ch]
      else if ch = CHR 0x09 then [backslash, CHR ''t'']
      else if ch = CHR 0x0A then [backslash, CHR ''n'']
      else if ch = CHR 0x0D then [backslash, CHR ''r'']
      else if printable ch then [ch]
      else hex_escape ch)"

definition repr :: "string \<Rightarrow> string" where
  "repr s =
     (let q = (if quote \<in> set s \<and> dquote \<notin> set s then dquote else quote)
      in [q] @ concat (map (repr_char q) s) @ [q])"

definition str_tuple :: "lane \<Rightarrow> string" where
  "str_tuple i = ''('' @ repr (fst i) @ '', '' @ repr (snd i) @ '')''"

subsection \<open>\<^verbatim>\<open>re.findall\<close> with the pattern of the program\<close>

text \<open>
  \<^verbatim>\<open>re.findall(r"(?<=[']).{3}(?=['])", name)\<close>: the matches, from left to right and
  without overlap, of three characters other than a newline that stand right after a
  single quote and right before one. The first argument of \<open>findall\<close> is the character
  before the position where the search stands.
\<close>

fun findall :: "char option \<Rightarrow> string \<Rightarrow> string list" where
  "findall prev (a # b # c # q # rest) =
     (if prev = Some quote \<and> q = quote \<and> a \<noteq> CHR 0x0A \<and> b \<noteq> CHR 0x0A \<and> c \<noteq> CHR 0x0A
      then [a, b, c] # findall (Some c) (q # rest)
      else findall (Some a) (b # c # q # rest))"
| "findall prev s = []"

section \<open>The conclusions of the sensitivity analysis\<close>

text \<open>
  \<^verbatim>\<open>int(str(constraint_name)[2:3])\<close>: the slice holds the third character of the name, or
  nothing when the name is shorter; \<^verbatim>\<open>int\<close> of it is its value when it is a decimal
  digit and raises ValueError otherwise.
\<close>

definition digit_value :: "char \<Rightarrow> nat option" where
  "digit_value ch =
     (let n = (of_char ch :: nat) in if 48 \<le> n \<and> n \<le> 57 then Some (n - 48) else None)"

definition constraint_number_of :: "string \<Rightarrow> error + nat" where
  "constraint_number_of constraint_name =
     (case drop 2 (take 3 constraint_name) of
        [ch] \<Rightarrow> (case digit_value ch of None \<Rightarrow> Inl ValueError | Some n \<Rightarrow> Inr n)
      | _ \<Rightarrow> Inl ValueError)"

text \<open>\<^verbatim>\<open>str(constraint_name)[-3:]\<close>: the last three characters, or the whole name.\<close>

definition location_of :: "string \<Rightarrow> string" where
  "location_of constraint_name = drop (length constraint_name - 3) constraint_name"

definition print_conclusions_constraints_sensibility_analysis ::
  "string \<Rightarrow> real \<Rightarrow> location list \<Rightarrow> run" where
  "print_conclusions_constraints_sensibility_analysis constraint_name shadow_price sources =
     (case constraint_number_of constraint_name of
        Inl e \<Rightarrow> raise e
      | Inr constraint_number \<Rightarrow>
         (let location = location_of constraint_name in
          if constraint_number \<le> 2 \<and> location \<in> set sources then
            (if shadow_price < 0 then
               say [S ''The total transportation cost would be reduced by'',
                    N \<bar>shadow_price\<bar>,
                    S ''euros for each additional ton available in'', S location]
             else if shadow_price > 0 then
               say [S ''The total transportation cost would be increased in'',
                    N shadow_price,
                    S ''euros for each additional ton available in'', S location]
             else
               say [S ''The total transportation cost would remain equal for each additional ton available in'',
                    S location])
          else if constraint_number \<le> 2 then
            (if shadow_price < 0 then
               say [S ''The total transportation cost would be reduced by'',
                    N \<bar>shadow_price\<bar>,
                    S ''euros for each additional ton supply at'', S location]
             else if shadow_price > 0 then
               say [S ''The total transportation cost would be increased in'',
                    N shadow_price,
                    S ''euros for each additional ton supply at'', S location]
             else
               say [S ''The total transportation cost would remain equal for each additional ton supply at'',
                    S location])
          else ([], None)))"

text \<open>
  \<^verbatim>\<open>list_source_customer[0]\<close> and \<^verbatim>\<open>[1]\<close> raise IndexError when the pattern matched
  fewer than two times.
\<close>

definition print_conclusions_variables_sensibility_analysis :: "string \<Rightarrow> real \<Rightarrow> run" where
  "print_conclusions_variables_sensibility_analysis variable_name reduced_cost =
     (case findall None variable_name of
        source # customer # _ \<Rightarrow>
          (if reduced_cost < 0 then
             say [S ''The total transportation cost would be reduced by'',
                  N \<bar>reduced_cost\<bar>,
                  S ''euros for each ton supply from'', S source, S ''to'', S customer]
           else if reduced_cost > 0 then
             say [S ''The total cost would be increased in'',
                  N reduced_cost,
                  S ''euros for each ton supply from'', S source, S ''to'', S customer]
           else
             say [S ''The total transportation cost would remain equal for each ton supply from'',
                  S source, S ''to'', S customer])
      | _ \<Rightarrow> raise IndexError)"

section \<open>The PuLP objects the program builds\<close>

text \<open>
  PuLP replaces the characters it does not allow in a name by an underscore:
  \<^verbatim>\<open>-+[] ->/\<close> in the name of a variable (\<^verbatim>\<open>LpElement\<close>), \<^verbatim>\<open>-+[]\<close> and the space in the
  name of a constraint (\<^verbatim>\<open>LpAffineExpression.trans\<close>).
\<close>

definition translate :: "string \<Rightarrow> string \<Rightarrow> string" where
  "translate illegal_chars name = map (\<lambda>ch. if ch \<in> set illegal_chars then CHR ''_'' else ch) name"

definition LpElement_illegal_chars :: string where
  "LpElement_illegal_chars = ''-+[] ->/''"

definition LpAffineExpression_illegal_chars :: string where
  "LpAffineExpression_illegal_chars = ''-+[] ''"

datatype category = Continuous | Integer | Binary

text \<open>
  A variable is an object: PuLP hashes it by identity, not by name. The field \<open>index\<close> is
  the key under which \<^verbatim>\<open>LpVariable.dicts\<close> made the variable and stands for that identity.
\<close>

record LpVariable =
  index :: lane
  vname :: string
  lowBound :: "real option"
  upBound :: "real option"
  cat :: category

text \<open>
  \<^verbatim>\<open>LpVariable.dicts(name, indices, lowBound=..., cat=...)\<close>: a dictionary with one new
  variable per index, named \<^verbatim>\<open>name + "_" + str(index)\<close>; an index that comes twice keeps
  its place and gets the later variable. A dictionary is an association list in the order
  of insertion, updated with \<^const>\<open>AList.update\<close>.
\<close>

definition LpVariable_new ::
  "lane \<Rightarrow> string \<Rightarrow> real option \<Rightarrow> real option \<Rightarrow> category \<Rightarrow> LpVariable" where
  "LpVariable_new i name lb ub ct =
     \<lparr>index = i, vname = translate LpElement_illegal_chars name,
      lowBound = lb, upBound = ub, cat = ct\<rparr>"

definition LpVariable_dicts ::
  "string \<Rightarrow> lane list \<Rightarrow> real option \<Rightarrow> category \<Rightarrow> (lane \<times> LpVariable) list" where
  "LpVariable_dicts name indices lb ct =
     fold (\<lambda>i d. AList.update i (LpVariable_new i (name @ ''_'' @ str_tuple i) lb None ct) d)
          indices []"

text \<open>The variable the program makes for the lane \<open>i\<close>, written \<^verbatim>\<open>vQuantityExchanged[s, c]\<close>.\<close>

definition quantity :: "lane \<Rightarrow> LpVariable" where
  "quantity i = LpVariable_new i (''quantity_in_tons'' @ ''_'' @ str_tuple i) (Some 0) None Continuous"

text \<open>
  An affine expression is a dictionary from variables to coefficients (the constant of
  the expressions of this program is always zero and is left out). \<^verbatim>\<open>addterm\<close> adds to
  the coefficient of a variable that is there with a coefficient other than zero, and
  sets the coefficient otherwise.
\<close>

type_synonym LpAffineExpression = "(LpVariable \<times> real) list"

definition addterm :: "LpAffineExpression \<Rightarrow> LpVariable \<Rightarrow> real \<Rightarrow> LpAffineExpression" where
  "addterm self key val =
     (case map_of self key of
        Some y \<Rightarrow> if y \<noteq> 0 then AList.update key (y + val) self else AList.update key val self
      | None \<Rightarrow> AList.update key val self)"

text \<open>
  \<^verbatim>\<open>lpSum(vector)\<close> starts from the empty expression and adds every element of the vector
  in place: a variable with coefficient 1, an expression term by term.
\<close>

datatype summand = Element LpVariable | Expression LpAffineExpression

definition addInPlace :: "summand \<Rightarrow> LpAffineExpression \<Rightarrow> LpAffineExpression" where
  "addInPlace other self =
     (case other of
        Element v \<Rightarrow> addterm self v 1
      | Expression e \<Rightarrow> fold (\<lambda>(v, x) acc. addterm acc v (x * 1)) e self)"

definition lpSum :: "summand list \<Rightarrow> LpAffineExpression" where
  "lpSum vector = fold addInPlace vector []"

text \<open>
  \<^verbatim>\<open>number * variable\<close> is \<^verbatim>\<open>LpAffineExpression(variable) * number\<close>: the expression with the
  one term, or the empty expression when the number is zero. PuLP raises PulpError for
  a number that is not finite; \<^typ>\<open>real\<close> has none.
\<close>

definition rmul :: "LpVariable \<Rightarrow> real \<Rightarrow> LpAffineExpression" where
  "rmul v other = (if other \<noteq> 0 then [(v, other * 1)] else [])"

datatype constraint_sense = LpConstraintLE | LpConstraintGE | LpConstraintEQ

record LpConstraint =
  expr :: LpAffineExpression
  sense :: constraint_sense
  rhs :: real

datatype problem_sense = LpMinimize | LpMaximize

record LpProblem =
  pname :: string
  psense :: problem_sense
  objective :: "LpAffineExpression option"
  constraints :: "(string \<times> LpConstraint) list"

definition LpProblem_new :: "string \<Rightarrow> problem_sense \<Rightarrow> LpProblem" where
  "LpProblem_new name s = \<lparr>pname = name, psense = s, objective = None, constraints = []\<rparr>"

text \<open>
  \<^verbatim>\<open>model += (constraint, name)\<close>: the constraint takes the name, with the characters PuLP
  does not allow replaced, and goes into the dictionary \<^verbatim>\<open>model.constraints\<close> under it;
  PuLP raises PulpError (overlapping constraint names) when the name is there already.
  The program always gives a name that is not empty.
\<close>

definition iadd_constraint :: "LpProblem \<Rightarrow> LpConstraint \<Rightarrow> string \<Rightarrow> error + LpProblem" where
  "iadd_constraint model c name =
     (let name' = translate LpAffineExpression_illegal_chars name in
      if name' \<in> fst ` set (constraints model) then Inl PulpError
      else Inr (model\<lparr>constraints := constraints model @ [(name', c)]\<rparr>))"

section \<open>Building the model\<close>

text \<open>What \<^verbatim>\<open>json.load\<close> returns for the data file.\<close>

record data =
  sSources :: "location list"
  sCustomers :: "location list"
  pSourceProduction :: "location \<rightharpoonup> real"
  pCustomerDemand :: "location \<rightharpoonup> real"
  pTransportationCosts_items :: "(lane \<times> real) list"
  pFixedTransportation_items :: "(lane \<times> real) list"

text \<open>
  \<^verbatim>\<open>{tuple(item["index"]): item["value"] for item in items}\<close>: a later item with the same
  index replaces the value of an earlier one.
\<close>

definition dict_of_items :: "(lane \<times> real) list \<Rightarrow> (lane \<rightharpoonup> real)" where
  "dict_of_items items = fold (\<lambda>(k, v) m. m(k \<mapsto> v)) items Map.empty"

definition pTransportationCosts :: "data \<Rightarrow> (lane \<rightharpoonup> real)" where
  "pTransportationCosts d = dict_of_items (pTransportationCosts_items d)"

definition sSources_Customers :: "data \<Rightarrow> lane list" where
  "sSources_Customers d = map fst (pTransportationCosts_items d)"

definition pFixedTransportation :: "data \<Rightarrow> (lane \<rightharpoonup> real)" where
  "pFixedTransportation d = dict_of_items (pFixedTransportation_items d)"

text \<open>
  \<^verbatim>\<open>(s, c) for s in sSources for c in sCustomers if (s, c) in sSources_Customers\<close>
\<close>

definition lane_pairs :: "data \<Rightarrow> lane list" where
  "lane_pairs d =
     filter (\<lambda>i. i \<in> set (sSources_Customers d)) (List.product (sSources d) (sCustomers d))"

definition objective_terms :: "data \<Rightarrow> (lane \<times> LpVariable) list \<Rightarrow> error + summand list" where
  "objective_terms d vQuantityExchanged =
     comprehension
       (\<lambda>i. case getitem (pTransportationCosts d) i of
               Inl e \<Rightarrow> Inl e
             | Inr k \<Rightarrow>
                (case getitem (map_of vQuantityExchanged) i of
                   Inl e \<Rightarrow> Inl e
                 | Inr v \<Rightarrow> Inr (Expression (rmul v k))))
       (lane_pairs d)"

definition production_limit ::
  "data \<Rightarrow> (lane \<times> LpVariable) list \<Rightarrow> location \<Rightarrow> LpProblem \<Rightarrow> error + LpProblem" where
  "production_limit d vQuantityExchanged s model =
     (case comprehension (\<lambda>c. getitem (map_of vQuantityExchanged) (s, c))
             (filter (\<lambda>c. (s, c) \<in> set (sSources_Customers d)) (sCustomers d)) of
        Inl e \<Rightarrow> Inl e
      | Inr vs \<Rightarrow>
         (case getitem (pSourceProduction d) s of
            Inl e \<Rightarrow> Inl e
          | Inr r \<Rightarrow>
             iadd_constraint model
               \<lparr>expr = lpSum (map Element vs), sense = LpConstraintLE, rhs = r\<rparr>
               (''c01_production_'' @ s)))"

definition demand_limit ::
  "data \<Rightarrow> (lane \<times> LpVariable) list \<Rightarrow> location \<Rightarrow> LpProblem \<Rightarrow> error + LpProblem" where
  "demand_limit d vQuantityExchanged c model =
     (case comprehension (\<lambda>s. getitem (map_of vQuantityExchanged) (s, c))
             (filter (\<lambda>s. (s, c) \<in> set (sSources_Customers d)) (sSources d)) of
        Inl e \<Rightarrow> Inl e
      | Inr vs \<Rightarrow>
         (case getitem (pCustomerDemand d) c of
            Inl e \<Rightarrow> Inl e
          | Inr r \<Rightarrow>
             iadd_constraint model
               \<lparr>expr = lpSum (map Element vs), sense = LpConstraintGE, rhs = r\<rparr>
               (''c02_demand_'' @ c)))"

text \<open>
  \<^verbatim>\<open>if (s, c) in sSources_Customers and pFixedTransportation[s, c]:\<close> reads the table only
  for a lane, raises KeyError when the lane is not in the table, and is true for a number
  other than zero.
\<close>

definition fixed_flow ::
  "data \<Rightarrow> (lane \<times> LpVariable) list \<Rightarrow> location \<Rightarrow> location \<Rightarrow> LpProblem \<Rightarrow> error + LpProblem" where
  "fixed_flow d vQuantityExchanged s c model =
     (if (s, c) \<in> set (sSources_Customers d) then
        (case getitem (pFixedTransportation d) (s, c) of
           Inl e \<Rightarrow> Inl e
         | Inr x \<Rightarrow>
            if x \<noteq> 0 then
              (case getitem (map_of vQuantityExchanged) (s, c) of
                 Inl e \<Rightarrow> Inl e
               | Inr v \<Rightarrow>
                  iadd_constraint model
                    \<lparr>expr = [(v, 1)], sense = LpConstraintEQ, rhs = x\<rparr>
                    (''c03_fixed_'' @ s @ ''_'' @ c))
            else Inr model)
      else Inr model)"

text \<open>The model and the dictionary of its variables, as they stand before the solver runs.\<close>

record formulation =
  model :: LpProblem
  vQuantityExchanged :: "(lane \<times> LpVariable) list"

definition build :: "data \<Rightarrow> error + formulation" where
  "build d =
     (let model0 = LpProblem_new ''Network_flows_optimization'' LpMinimize;
          vQ = LpVariable_dicts ''quantity_in_tons'' (lane_pairs d) (Some 0) Continuous
      in case objective_terms d vQ of
           Inl e \<Rightarrow> Inl e
         | Inr terms \<Rightarrow>
            (case for_each (sSources d) (production_limit d vQ)
                    (model0\<lparr>objective := Some (lpSum terms)\<rparr>) of
               Inl e \<Rightarrow> Inl e
             | Inr model1 \<Rightarrow>
                (case for_each (sCustomers d) (demand_limit d vQ) model1 of
                   Inl e \<Rightarrow> Inl e
                 | Inr model2 \<Rightarrow>
                    (case for_each (sSources d)
                            (\<lambda>s. for_each (sCustomers d) (fixed_flow d vQ s)) model2 of
                       Inl e \<Rightarrow> Inl e
                     | Inr model3 \<Rightarrow> Inr \<lparr>model = model3, vQuantityExchanged = vQ\<rparr>))))"

section \<open>The solver and the report\<close>

text \<open>
  The solver is outside the program. \<^verbatim>\<open>model.solve(solver)\<close> writes a status into the
  model, a value and a reduced cost into every variable, and a slack and a shadow price
  into every constraint; a \<open>solution\<close> holds what it wrote. The functions below take the
  solution as it comes: nothing in the program depends on how the solver found it.
\<close>

datatype lp_status = NotSolved | Optimal | Infeasible | Unbounded | Undefined

definition LpStatus :: "lp_status \<Rightarrow> string" where
  "LpStatus st =
     (case st of
        NotSolved \<Rightarrow> ''Not Solved''
      | Optimal \<Rightarrow> ''Optimal''
      | Infeasible \<Rightarrow> ''Infeasible''
      | Unbounded \<Rightarrow> ''Unbounded''
      | Undefined \<Rightarrow> ''Undefined'')"

record solution =
  status :: lp_status
  varValue :: "LpVariable \<Rightarrow> real"
  dj :: "LpVariable \<Rightarrow> real"
  slack :: "string \<Rightarrow> real"
  pi :: "string \<Rightarrow> real"

text \<open>
  \<^verbatim>\<open>value(expression)\<close>: the sum of the values of the variables times their coefficients.
  The sum is taken over the reals: the rounding of the floating-point sum that the
  program prints as the total cost, and a variable the solver left without a value, are
  outside the model.
\<close>

definition value_of :: "LpAffineExpression \<Rightarrow> solution \<Rightarrow> real" where
  "value_of e sol = sum_list (map (\<lambda>(v, x). varValue sol v * x) e)"

text \<open>
  \<^verbatim>\<open>model.variables()\<close>: the variables of the objective and of the constraints, each once,
  sorted by name. The variable \<^verbatim>\<open>__dummy\<close> that PuLP leaves in an objective without any
  term (every cost zero, or no lane) is not modelled.
\<close>

definition addVariables :: "LpVariable list \<Rightarrow> LpVariable list \<Rightarrow> LpVariable list" where
  "addVariables vars new = fold (\<lambda>v acc. if v \<in> set acc then acc else acc @ [v]) new vars"

definition variables :: "LpProblem \<Rightarrow> LpVariable list" where
  "variables m =
     sort_key vname
       (fold (\<lambda>(name, c) acc. addVariables acc (map fst (expr c))) (constraints m)
          (addVariables [] (case objective m of None \<Rightarrow> [] | Some e \<Rightarrow> map fst e)))"

text \<open>
  The dictionary of the flows above zero. The data frame made from it raises TypeError
  when the dictionary is empty (\<^verbatim>\<open>MultiIndex.from_tuples\<close> cannot take an empty list).
\<close>

definition dict_quantity_sources_customers ::
  "data \<Rightarrow> (lane \<times> LpVariable) list \<Rightarrow> solution \<Rightarrow> error + (lane \<times> real) list" where
  "dict_quantity_sources_customers d vQ sol =
     (case comprehension
             (\<lambda>i. case getitem (map_of vQ) i of
                     Inl e \<Rightarrow> Inl e
                   | Inr v \<Rightarrow> Inr (i, varValue sol v))
             (lane_pairs d) of
        Inl e \<Rightarrow> Inl e
      | Inr kvs \<Rightarrow>
          Inr (fold (\<lambda>(k, x) dict. AList.update k x dict) (filter (\<lambda>(k, x). x > 0) kvs) []))"

definition df_quantity_sources_customers ::
  "data \<Rightarrow> (lane \<times> LpVariable) list \<Rightarrow> solution \<Rightarrow> run" where
  "df_quantity_sources_customers d vQ sol =
     (case dict_quantity_sources_customers d vQ sol of
        Inl e \<Rightarrow> raise e
      | Inr [] \<Rightarrow> raise TypeError
      | Inr rows \<Rightarrow> ([PrintQuantity (map (\<lambda>((s, c), x). (s, c, x)) rows)], None))"

definition list_sensibility_analysis_constraints ::
  "LpProblem \<Rightarrow> solution \<Rightarrow> (string \<times> real \<times> real) list" where
  "list_sensibility_analysis_constraints m sol =
     map (\<lambda>(name, c). (name, slack sol name, pi sol name)) (constraints m)"

definition list_sensibility_analysis_variables ::
  "LpProblem \<Rightarrow> solution \<Rightarrow> (string \<times> real \<times> real) list" where
  "list_sensibility_analysis_variables m sol =
     map (\<lambda>v. (vname v, varValue sol v, dj sol v)) (variables m)"

text \<open>
  The conclusions: the rows of the data frame with \<^verbatim>\<open>Slack == 0\<close> (with \<^verbatim>\<open>Value == 0\<close>)
  go, in order, to the function that prints the conclusion. A data frame made from no
  row at all has no column, and selecting the column raises KeyError. When no row is
  left after the selection, nothing is printed.
\<close>

definition conclusions_constraints :: "(string \<times> real \<times> real) list \<Rightarrow> location list \<Rightarrow> run" where
  "conclusions_constraints rows sources =
     (if rows = [] then raise KeyError
      else seq (map (\<lambda>(name, sl, p).
                      print_conclusions_constraints_sensibility_analysis name p sources)
                 (filter (\<lambda>(name, sl, p). sl = 0) rows)))"

definition conclusions_variables :: "(string \<times> real \<times> real) list \<Rightarrow> run" where
  "conclusions_variables rows =
     (if rows = [] then raise KeyError
      else seq (map (\<lambda>(name, val, r).
                      print_conclusions_variables_sensibility_analysis name r)
                 (filter (\<lambda>(name, val, r). val = 0) rows)))"

definition report :: "data \<Rightarrow> formulation \<Rightarrow> solution \<Rightarrow> run" where
  "report d f sol =
     seq [
       say [S newline],
       say [S ''Solver status: '', S (LpStatus (status sol)), S newline],
       (case objective (model f) of
          None \<Rightarrow> raise AttributeError
        | Some e \<Rightarrow> say [S ''Total transportation cost: '', N (value_of e sol), S newline]),
       say [S ''Quantity exchanged between sources and customers:''],
       df_quantity_sources_customers d (vQuantityExchanged f) sol,
       say [S newline],
       say [S ''Sensibility analysis - constraints:''],
       ([PrintConstraints (list_sensibility_analysis_constraints (model f) sol)], None),
       say [S newline],
       conclusions_constraints (list_sensibility_analysis_constraints (model f) sol) (sSources d),
       say [S newline],
       say [S ''Sensibility analysis - variables:''],
       ([PrintVariables (list_sensibility_analysis_variables (model f) sol)], None),
       say [S newline],
       conclusions_variables (list_sensibility_analysis_variables (model f) sol),
       say [S newline]]"

text \<open>
  The whole function, after the data file is loaded: an exception of the builder ends the
  run before anything is printed.
\<close>

definition solve_problem_using_pulp :: "(formulation \<Rightarrow> solution) \<Rightarrow> data \<Rightarrow> run" where
  "solve_problem_using_pulp solver d =
     (case build d of
        Inl e \<Rightarrow> raise e
      | Inr f \<Rightarrow> report d f (solver f))"

section \<open>Closed forms and examples used in the proofs\<close>

text \<open>
  What the three loops of the builder add to \<^verbatim>\<open>model.constraints\<close> when they raise nothing:
  one entry per source, one per customer, and at most one per pair of a source and a
  customer. The lemma \<open>build_Inr\<close> below proves that a completed build holds exactly
  these entries, in this order.
\<close>

definition production_constraint :: "data \<Rightarrow> location \<Rightarrow> string \<times> LpConstraint" where
  "production_constraint d s =
     (translate LpAffineExpression_illegal_chars (''c01_production_'' @ s),
      \<lparr>expr = lpSum (map Element (map (\<lambda>c. quantity (s, c))
                 (filter (\<lambda>c. (s, c) \<in> set (sSources_Customers d)) (sCustomers d)))),
       sense = LpConstraintLE, rhs = the (pSourceProduction d s)\<rparr>)"

definition demand_constraint :: "data \<Rightarrow> location \<Rightarrow> string \<times> LpConstraint" where
  "demand_constraint d c =
     (translate LpAffineExpression_illegal_chars (''c02_demand_'' @ c),
      \<lparr>expr = lpSum (map Element (map (\<lambda>s. quantity (s, c))
                 (filter (\<lambda>s. (s, c) \<in> set (sSources_Customers d)) (sSources d)))),
       sense = LpConstraintGE, rhs = the (pCustomerDemand d c)\<rparr>)"

definition fixed_constraints :: "data \<Rightarrow> location \<Rightarrow> location \<Rightarrow> (string \<times> LpConstraint) list" where
  "fixed_constraints d s c =
     (if (s, c) \<in> set (sSources_Customers d) \<and> the (pFixedTransportation d (s, c)) \<noteq> 0
      then [(translate LpAffineExpression_illegal_chars (''c03_fixed_'' @ s @ ''_'' @ c),
             \<lparr>expr = [(quantity (s, c), 1)], sense = LpConstraintEQ,
              rhs = the (pFixedTransportation d (s, c))\<rparr>)]
      else [])"

text \<open>
  A small instance in the shape of the data files of the program (two sources, two
  customers, three lanes, one fixed flow), and the formulation the builder makes of it.
\<close>

definition example_data :: data where
  "example_data =
     \<lparr>sSources = [''Gou'', ''Arn''], sCustomers = [''Ams'', ''Ber''],
      pSourceProduction = [''Gou'' \<mapsto> 10, ''Arn'' \<mapsto> 5],
      pCustomerDemand = [''Ams'' \<mapsto> 4, ''Ber'' \<mapsto> 3],
      pTransportationCosts_items =
        [((''Gou'', ''Ams''), 2), ((''Arn'', ''Ams''), 1), ((''Arn'', ''Ber''), 3)],
      pFixedTransportation_items =
        [((''Gou'', ''Ams''), 0), ((''Arn'', ''Ams''), 1), ((''Arn'', ''Ber''), 0)]\<rparr>"

definition example_formulation :: formulation where
  "example_formulation =
     \<lparr>model =
        \<lparr>pname = ''Network_flows_optimization'', psense = LpMinimize,
         objective = Some [(quantity (''Gou'', ''Ams''), 2), (quantity (''Arn'', ''Ams''), 1),
                           (quantity (''Arn'', ''Ber''), 3)],
         constraints =
           [(''c01_production_Gou'',
             \<lparr>expr = [(quantity (''Gou'', ''Ams''), 1)], sense = LpConstraintLE, rhs = 10\<rparr>),
            (''c01_production_Arn'',
             \<lparr>expr = [(quantity (''Arn'', ''Ams''), 1), (quantity (''Arn'', ''Ber''), 1)],
              sense = LpConstraintLE, rhs = 5\<rparr>),
            (''c02_demand_Ams'',
             \<lparr>expr = [(quantity (''Gou'', ''Ams''), 1), (quantity (''Arn'', ''Ams''), 1)],
              sense = LpConstraintGE, rhs = 4\<rparr>),
            (''c02_demand_Ber'',
             \<lparr>expr = [(quantity (''Arn'', ''Ber''), 1)], sense = LpConstraintGE, rhs = 3\<rparr>),
            (''c03_fixed_Arn_Ams'',
             \<lparr>expr = [(quantity (''Arn'', ''Ams''), 1)], sense = LpConstraintEQ, rhs = 1\<rparr>)]\<rparr>,
      vQuantityExchanged =
        [((''Gou'', ''Ams''), quantity (''Gou'', ''Ams'')),
         ((''Arn'', ''Ams''), quantity (''Arn'', ''Ams'')),
         ((''Arn'', ''Ber''), quantity (''Arn'', ''Ber''))]\<rparr>"

text \<open>
The same instance with an empty \<^verbatim>\<open>pFixedTransportation\<close> table.
\<close>

definition example_data_without_fixed_flow :: data where
  "example_data_without_fixed_flow = example_data\<lparr>pFixedTransportation_items := []\<rparr>"

text \<open>
The same instance with one more entry in the cost table, for a source that is not listed.
\<close>

definition example_data_with_unlisted_source :: data where
  "example_data_with_unlisted_source =
     example_data\<lparr>pTransportationCosts_items :=
        [((''Gou'', ''Ams''), 2), ((''Arn'', ''Ams''), 1), ((''Arn'', ''Ber''), 3), ((''Rot'', ''Ams''), 4)]\<rparr>"

text \<open>
An instance whose source has a hyphen in its code.
\<close>

definition hyphen_data :: data where
  "hyphen_data =
     \<lparr>sSources = [''a-b''], sCustomers = [''Ams''],
      pSourceProduction = [''a-b'' \<mapsto> 5],
      pCustomerDemand = [''Ams'' \<mapsto> 4],
      pTransportationCosts_items = [((''a-b'', ''Ams''), 2)],
      pFixedTransportation_items = [((''a-b'', ''Ams''), 0)]\<rparr>"

definition hyphen_formulation :: formulation where
  "hyphen_formulation =
     \<lparr>model =
        \<lparr>pname = ''Network_flows_optimization'', psense = LpMinimize,
         objective = Some [(quantity (''a-b'', ''Ams''), 2)],
         constraints =
           [(''c01_production_a_b'',
             \<lparr>expr = [(quantity (''a-b'', ''Ams''), 1)], sense = LpConstraintLE, rhs = 5\<rparr>),
            (''c02_demand_Ams'',
             \<lparr>expr = [(quantity (''a-b'', ''Ams''), 1)], sense = LpConstraintGE, rhs = 4\<rparr>)]\<rparr>,
      vQuantityExchanged = [((''a-b'', ''Ams''), quantity (''a-b'', ''Ams''))]\<rparr>"

text \<open>
  An instance that has no feasible flow (the demand is above the capacity), and a solver
  that reports it: status Infeasible, the flow at the demand, the demand constraint
  binding.
\<close>

definition infeasible_data :: data where
  "infeasible_data =
     \<lparr>sSources = [''Gou''], sCustomers = [''Ams''],
      pSourceProduction = [''Gou'' \<mapsto> 1],
      pCustomerDemand = [''Ams'' \<mapsto> 2],
      pTransportationCosts_items = [((''Gou'', ''Ams''), 1)],
      pFixedTransportation_items = [((''Gou'', ''Ams''), 0)]\<rparr>"

definition infeasible_formulation :: formulation where
  "infeasible_formulation =
     \<lparr>model =
        \<lparr>pname = ''Network_flows_optimization'', psense = LpMinimize,
         objective = Some [(quantity (''Gou'', ''Ams''), 1)],
         constraints =
           [(''c01_production_Gou'',
             \<lparr>expr = [(quantity (''Gou'', ''Ams''), 1)], sense = LpConstraintLE, rhs = 1\<rparr>),
            (''c02_demand_Ams'',
             \<lparr>expr = [(quantity (''Gou'', ''Ams''), 1)], sense = LpConstraintGE, rhs = 2\<rparr>)]\<rparr>,
      vQuantityExchanged = [((''Gou'', ''Ams''), quantity (''Gou'', ''Ams''))]\<rparr>"

definition infeasible_solver :: "formulation \<Rightarrow> solution" where
  "infeasible_solver f =
     \<lparr>status = Infeasible,
      varValue = (\<lambda>v. 2),
      dj = (\<lambda>v. 0),
      slack = (\<lambda>name. if name = ''c02_demand_Ams'' then 0 else - 1),
      pi = (\<lambda>name. if name = ''c02_demand_Ams'' then 1 else 0)\<rparr>"

section \<open>Lemmas\<close>

subsection \<open>Runs of printing functions\<close>

lemma then_run_say: "then_run (say a) r = (Print a # fst r, snd r)"
  by (simp add: then_run_def say_def)

lemma seq_Nil: "seq [] = ([], None)"
  by (simp add: seq_def)

lemma seq_Cons: "seq (r # rs) = then_run r (seq rs)"
  by (simp add: seq_def)

lemma seq_say_say:
  "seq (say a # say b # rs) = (Print a # Print b # fst (seq rs), snd (seq rs))"
  by (simp add: seq_Cons then_run_say)

lemma seq_map_ok:
  "seq (map f xs) = (outs, None) \<Longrightarrow>
     outs = concat (map (\<lambda>x. fst (f x)) xs) \<and> (\<forall>x\<in>set xs. snd (f x) = None)"
proof (induction xs arbitrary: outs)
  case Nil
  then show ?case by (simp add: seq_Nil)
next
  case (Cons x xs)
  from Cons.prems have a: "snd (f x) = None"
    by (auto simp add: seq_Cons then_run_def split: option.splits)
  with Cons.prems have b: "seq (map f xs) = (fst (seq (map f xs)), None)" and c: "outs = fst (f x) @ fst (seq (map f xs))"
    by (auto simp add: seq_Cons then_run_def prod_eq_iff)
  from Cons.IH [OF b] a c show ?case by simp
qed

lemma concat_map_filter_if:
  "concat (map g (filter P xs)) = concat (map (\<lambda>x. if P x then g x else []) xs)"
  by (induction xs) simp_all

subsection \<open>The printing functions\<close>

lemma constraint_number_of_fixed:
  "constraint_number_of (translate LpAffineExpression_illegal_chars (''c03_fixed_'' @ s @ ''_'' @ c)) = Inr 3"
  by (simp add: constraint_number_of_def translate_def LpAffineExpression_illegal_chars_def digit_value_def)

lemma constraint_number_of_production:
  "constraint_number_of (translate LpAffineExpression_illegal_chars (''c01_production_'' @ s)) = Inr 1"
  by (simp add: constraint_number_of_def translate_def LpAffineExpression_illegal_chars_def digit_value_def)

lemma constraint_number_of_demand:
  "constraint_number_of (translate LpAffineExpression_illegal_chars (''c02_demand_'' @ s)) = Inr 2"
  by (simp add: constraint_number_of_def translate_def LpAffineExpression_illegal_chars_def digit_value_def)

lemma print_constraints_ok_iff:
  "snd (print_conclusions_constraints_sensibility_analysis name p sources) = None \<Longrightarrow>
     (fst (print_conclusions_constraints_sensibility_analysis name p sources) \<noteq> []
        \<longleftrightarrow> (\<exists>n. constraint_number_of name = Inr n \<and> n \<le> 2))"
  by (auto simp add: print_conclusions_constraints_sensibility_analysis_def raise_def say_def Let_def
      split: sum.splits if_splits)

lemma print_variables_ok_length:
  "snd (print_conclusions_variables_sensibility_analysis name r) = None \<Longrightarrow>
     length (fst (print_conclusions_variables_sensibility_analysis name r)) = 1"
  by (auto simp add: print_conclusions_variables_sensibility_analysis_def raise_def say_def
      split: list.splits if_splits)

lemma value_of_status: "value_of e (sol\<lparr>status := st\<rparr>) = value_of e sol"
  by (simp add: value_of_def)

lemma df_quantity_status:
  "df_quantity_sources_customers d vQ (sol\<lparr>status := st\<rparr>) = df_quantity_sources_customers d vQ sol"
  by (simp add: df_quantity_sources_customers_def dict_quantity_sources_customers_def
      cong: sum.case_cong)

lemma list_constraints_status:
  "list_sensibility_analysis_constraints m (sol\<lparr>status := st\<rparr>) = list_sensibility_analysis_constraints m sol"
  by (simp add: list_sensibility_analysis_constraints_def)

lemma list_variables_status:
  "list_sensibility_analysis_variables m (sol\<lparr>status := st\<rparr>) = list_sensibility_analysis_variables m sol"
  by (simp add: list_sensibility_analysis_variables_def)

subsection \<open>Loops and comprehensions\<close>

lemma for_each_invariant:
  assumes "for_each xs body st = Inr st'" and "P st"
    and "\<And>x s1 s2. x \<in> set xs \<Longrightarrow> P s1 \<Longrightarrow> body x s1 = Inr s2 \<Longrightarrow> P s2"
  shows "P st'"
  using assms
proof (induction xs arbitrary: st)
  case Nil
  then show ?case by simp
next
  case (Cons x xs)
  from Cons.prems(1) obtain s1 where b: "body x st = Inr s1" and r: "for_each xs body s1 = Inr st'"
    by (auto split: sum.splits)
  from Cons.prems(3) [of x st s1] Cons.prems(2) b have p1: "P s1" by simp
  show ?case
  proof (rule Cons.IH [OF r p1])
    fix y s2 s3
    assume "y \<in> set xs" and "P s2" and "body y s2 = Inr s3"
    with Cons.prems(3) [of y s2 s3] show "P s3" by simp
  qed
qed

lemma for_each_extends:
  assumes "for_each xs body st = Inr st'"
    and "\<And>x s1 s2. x \<in> set xs \<Longrightarrow> body x s1 = Inr s2 \<Longrightarrow> proj s2 = proj s1 @ g x"
  shows "proj st' = proj st @ concat (map g xs)"
  using assms
proof (induction xs arbitrary: st)
  case Nil
  then show ?case by simp
next
  case (Cons x xs)
  from Cons.prems(1) obtain s1 where b: "body x st = Inr s1" and r: "for_each xs body s1 = Inr st'"
    by (auto split: sum.splits)
  from Cons.prems(2) [of x st s1] b have "proj s1 = proj st @ g x" by simp
  moreover from Cons.IH [OF r] Cons.prems(2) have "proj st' = proj s1 @ concat (map g xs)" by simp
  ultimately show ?case by simp
qed

lemma for_each_body_ok:
  assumes "for_each xs body st = Inr st'" and "x \<in> set xs"
  shows "\<exists>s1 s2. body x s1 = Inr s2"
  using assms
proof (induction xs arbitrary: st)
  case Nil
  then show ?case by simp
next
  case (Cons y ys)
  from Cons.prems(1) obtain s1 where b: "body y st = Inr s1" and r: "for_each ys body s1 = Inr st'"
    by (auto split: sum.splits)
  show ?case
  proof (cases "x = y")
    case True
    with b show ?thesis by blast
  next
    case False
    with Cons.prems(2) have "x \<in> set ys" by simp
    from Cons.IH [OF r this] show ?thesis .
  qed
qed

lemma comprehension_map:
  "(\<And>x. x \<in> set xs \<Longrightarrow> f x = Inr (g x)) \<Longrightarrow> comprehension f xs = Inr (map g xs)"
  by (induction xs) simp_all

lemma comprehension_Inl:
  "comprehension g xs = Inl e \<Longrightarrow> \<exists>x\<in>set xs. g x = Inl e"
  by (induction xs) (auto split: sum.splits)

lemma for_each_Inl:
  "for_each xs body st = Inl e \<Longrightarrow> \<exists>x\<in>set xs. \<exists>s1. body x s1 = Inl e"
  by (induction xs arbitrary: st) (auto split: sum.splits)

subsection \<open>Dictionaries and expressions\<close>

lemma dom_fold_upd:
  "dom (fold (\<lambda>(k, v) m. m(k \<mapsto> v)) items m0) = dom m0 \<union> fst ` set items"
  by (induction items arbitrary: m0) (auto split: prod.splits)

lemma dom_dict_of_items: "dom (dict_of_items items) = fst ` set items"
  by (simp add: dict_of_items_def dom_fold_upd)

lemma map_of_fold_update:
  "map_of (fold (\<lambda>i d. AList.update i (g i) d) xs acc) k =
     (if k \<in> set xs then Some (g k) else map_of acc k)"
  by (induction xs arbitrary: acc) (simp_all add: update_conv')

lemma map_of_LpVariable_dicts:
  "map_of (LpVariable_dicts name indices lb ct) i =
     (if i \<in> set indices then Some (LpVariable_new i (name @ ''_'' @ str_tuple i) lb None ct) else None)"
  by (simp add: LpVariable_dicts_def map_of_fold_update)

lemma distinct_fold_update:
  "distinct (map fst acc) \<Longrightarrow> distinct (map fst (fold (\<lambda>i d. AList.update i (g i) d) xs acc))"
  by (induction xs arbitrary: acc) (simp_all add: distinct_update)

lemma distinct_LpVariable_dicts: "distinct (map fst (LpVariable_dicts name indices lb ct))"
  by (simp add: LpVariable_dicts_def distinct_fold_update)

lemma keys_vQ: "fst ` set (LpVariable_dicts name indices lb ct) = set indices"
proof -
  have "dom (map_of (LpVariable_dicts name indices lb ct)) = set indices"
    by (auto simp add: map_of_LpVariable_dicts dom_def)
  then show ?thesis by (simp add: dom_map_of_conv_image_fst)
qed

lemma LpVariable_dicts_quantity:
  "LpVariable_dicts ''quantity_in_tons'' indices (Some 0) Continuous =
     fold (\<lambda>i d. AList.update i (quantity i) d) indices []"
  by (simp add: LpVariable_dicts_def quantity_def)

lemma update_fresh: "k \<notin> fst ` set al \<Longrightarrow> AList.update k v al = al @ [(k, v)]"
  by (induction al) auto

lemma map_of_fresh: "k \<notin> fst ` set al \<Longrightarrow> map_of al k = None"
  by (simp add: map_of_eq_None_iff)

lemma addterm_fresh: "k \<notin> fst ` set e \<Longrightarrow> addterm e k v = e @ [(k, v)]"
  by (simp add: addterm_def map_of_fresh update_fresh)

lemma fold_addterm_distinct:
  "distinct vs \<Longrightarrow> set vs \<inter> fst ` set acc = {} \<Longrightarrow>
     fold addInPlace (map Element vs) acc = acc @ map (\<lambda>v. (v, 1)) vs"
proof (induction vs arbitrary: acc)
  case Nil
  then show ?case by simp
next
  case (Cons v vs)
  from Cons.prems have f: "v \<notin> fst ` set acc" by auto
  have "fold addInPlace (map Element (v # vs)) acc = fold addInPlace (map Element vs) (acc @ [(v, 1)])"
    by (simp add: addInPlace_def addterm_fresh [OF f])
  also from Cons.prems have "\<dots> = (acc @ [(v, 1)]) @ map (\<lambda>v. (v, 1)) vs"
    by (intro Cons.IH) auto
  finally show ?case by simp
qed

lemma lpSum_elements_distinct:
  "distinct vs \<Longrightarrow> lpSum (map Element vs) = map (\<lambda>v. (v, 1)) vs"
  using fold_addterm_distinct [of vs "[]"] by (simp add: lpSum_def)

lemma index_quantity: "index (quantity i) = i"
  by (simp add: quantity_def LpVariable_new_def)

lemma quantity_eq_iff: "quantity i = quantity j \<longleftrightarrow> i = j"
  using index_quantity by metis

lemma value_of_append: "value_of (e1 @ e2) sol = value_of e1 sol + value_of e2 sol"
  by (simp add: value_of_def)

lemma value_of_update:
  "value_of (AList.update k v e) sol =
     value_of e sol + varValue sol k * (v - (case map_of e k of None \<Rightarrow> 0 | Some y \<Rightarrow> y))"
  by (induction e) (auto simp add: value_of_def algebra_simps)

lemma value_of_addterm: "value_of (addterm e k v) sol = value_of e sol + varValue sol k * v"
  by (auto simp add: addterm_def value_of_update algebra_simps split: option.splits)

lemma value_of_Nil: "value_of [] sol = 0"
  by (simp add: value_of_def)

lemma value_of_Cons: "value_of ((v, x) # e) sol = varValue sol v * x + value_of e sol"
  by (simp add: value_of_def)

lemma value_of_fold_addterm:
  "value_of (fold (\<lambda>(v, x) acc. addterm acc v x) e acc) sol = value_of acc sol + value_of e sol"
  by (induction e arbitrary: acc) (auto simp add: value_of_addterm value_of_Nil value_of_Cons)

lemma value_of_addInPlace_Expression:
  "value_of (addInPlace (Expression e) acc) sol = value_of acc sol + value_of e sol"
  by (simp add: addInPlace_def value_of_fold_addterm)

lemma value_of_fold_Expression:
  "value_of (fold addInPlace (map Expression es) acc) sol =
     value_of acc sol + sum_list (map (\<lambda>e. value_of e sol) es)"
  by (induction es arbitrary: acc) (simp_all add: value_of_addInPlace_Expression)

lemma value_of_lpSum_Expression:
  "value_of (lpSum (map Expression es)) sol = sum_list (map (\<lambda>e. value_of e sol) es)"
  by (simp add: lpSum_def value_of_fold_Expression, simp add: value_of_def)

lemma value_of_rmul: "value_of (rmul v k) sol = k * varValue sol v"
  by (simp add: rmul_def value_of_def)

lemma keys_addterm: "fst ` set (addterm e k v) = insert k (fst ` set e)"
  by (auto simp add: addterm_def split: option.splits if_splits
      simp flip: dom_map_of_conv_image_fst simp add: update_conv')

lemma keys_fold_addterm:
  "fst ` set (fold (\<lambda>(v, x) acc. addterm acc v x) e acc) = fst ` set acc \<union> fst ` set e"
  by (induction e arbitrary: acc) (simp_all add: keys_addterm case_prod_beta)

lemma keys_fold_addInPlace_Expression:
  "fst ` set (fold addInPlace (map Expression es) acc) = fst ` set acc \<union> (\<Union>e\<in>set es. fst ` set e)"
  by (induction es arbitrary: acc) (simp_all add: addInPlace_def keys_fold_addterm Un_assoc)

lemma keys_fold_addInPlace_Element:
  "fst ` set (fold addInPlace (map Element vs) acc) = fst ` set acc \<union> set vs"
  by (induction vs arbitrary: acc) (simp_all add: addInPlace_def keys_addterm)

lemma keys_lpSum_Element: "fst ` set (lpSum (map Element vs)) = set vs"
  by (simp add: lpSum_def keys_fold_addInPlace_Element)

lemma keys_lpSum_Expression: "fst ` set (lpSum (map Expression es)) = (\<Union>e\<in>set es. fst ` set e)"
  by (simp add: lpSum_def keys_fold_addInPlace_Expression)

subsection \<open>Names\<close>

lemma repr_plain:
  assumes "\<forall>ch\<in>set s. printable ch \<and> ch \<noteq> quote \<and> ch \<noteq> backslash"
  shows "repr s = [quote] @ s @ [quote]"
proof -
  have "repr_char quote ch = [ch]" if "ch \<in> set s" for ch
    using assms that by (auto simp add: repr_char_def printable_def)
  then have "concat (map (repr_char quote) s) = concat (map (\<lambda>ch. [ch]) s)"
    by (intro arg_cong [where f = concat] map_cong) simp_all
  also have "\<dots> = s" by (induction s) simp_all
  finally have "concat (map (repr_char quote) s) = s" .
  moreover from assms have "quote \<notin> set s" by auto
  ultimately show ?thesis by (simp add: repr_def)
qed

lemma translate_keep: "\<forall>ch\<in>set s. ch \<notin> set illegal \<Longrightarrow> translate illegal s = s"
  by (induction s) (simp_all add: translate_def)

lemma translate_append: "translate illegal (s @ t) = translate illegal s @ translate illegal t"
  by (simp add: translate_def)

lemma vname_quantity_plain:
  assumes "\<forall>ch\<in>set (s @ c). printable ch \<and> ch \<noteq> quote \<and> ch \<noteq> backslash \<and> ch \<notin> set LpElement_illegal_chars"
  shows "vname (quantity (s, c)) =
    ''quantity_in_tons_('' @ [quote] @ s @ [quote] @ '',_'' @ [quote] @ c @ [quote] @ '')''"
proof -
  from assms have "repr s = [quote] @ s @ [quote]" and "repr c = [quote] @ c @ [quote]"
    by (simp_all add: repr_plain)
  moreover from assms have "translate LpElement_illegal_chars s = s" and "translate LpElement_illegal_chars c = c"
    by (simp_all add: translate_keep)
  ultimately show ?thesis
    by (simp add: quantity_def LpVariable_new_def str_tuple_def translate_append)
       (simp add: translate_def LpElement_illegal_chars_def quote_def)
qed

lemma findall_plain_name:
  assumes "length s = 3" and "length c = 3"
    and "\<forall>ch\<in>set (s @ c). printable ch \<and> ch \<noteq> quote"
  shows "findall None (''quantity_in_tons_('' @ [quote] @ s @ [quote] @ '',_'' @ [quote] @ c @ [quote] @ '')'')
    = [s, c]"
proof -
  from assms(1) obtain a1 a2 a3 where s: "s = [a1, a2, a3]"
    by (auto simp add: length_Suc_conv numeral_3_eq_3)
  from assms(2) obtain b1 b2 b3 where c: "c = [b1, b2, b3]"
    by (auto simp add: length_Suc_conv numeral_3_eq_3)
  from assms(3) have n: "a1 \<noteq> CHR 0x0A" "a2 \<noteq> CHR 0x0A" "a3 \<noteq> CHR 0x0A"
      "b1 \<noteq> CHR 0x0A" "b2 \<noteq> CHR 0x0A" "b3 \<noteq> CHR 0x0A"
    and q: "a1 \<noteq> quote" "a2 \<noteq> quote" "a3 \<noteq> quote" "b1 \<noteq> quote" "b2 \<noteq> quote" "b3 \<noteq> quote"
    unfolding s c by (auto simp add: printable_def)
  show ?thesis
    unfolding s c using n q by (simp add: quote_def)
qed

subsection \<open>A build that completes\<close>

lemma set_lane_pairs:
  "(s, c) \<in> set (lane_pairs d) \<longleftrightarrow>
     s \<in> set (sSources d) \<and> c \<in> set (sCustomers d) \<and> (s, c) \<in> set (sSources_Customers d)"
  by (auto simp add: lane_pairs_def)

lemma set_lane_pairs_eq:
  "set (lane_pairs d) = {i \<in> set (sSources d) \<times> set (sCustomers d). i \<in> set (sSources_Customers d)}"
  by (auto simp add: lane_pairs_def)

lemma getitem_vQ:
  "i \<in> set (lane_pairs d) \<Longrightarrow>
     getitem (map_of (LpVariable_dicts ''quantity_in_tons'' (lane_pairs d) (Some 0) Continuous)) i
       = Inr (quantity i)"
  by (simp add: getitem_def map_of_LpVariable_dicts quantity_def)

lemma iadd_constraint_Inr:
  "iadd_constraint m c name = Inr m' \<Longrightarrow>
     m' = m\<lparr>constraints := constraints m @ [(translate LpAffineExpression_illegal_chars name, c)]\<rparr>
     \<and> translate LpAffineExpression_illegal_chars name \<notin> fst ` set (constraints m)"
  by (auto simp add: iadd_constraint_def Let_def split: if_splits)

lemma production_limit_Inr:
  assumes "s \<in> set (sSources d)"
    and "production_limit d (LpVariable_dicts ''quantity_in_tons'' (lane_pairs d) (Some 0) Continuous) s m = Inr m'"
  shows "pSourceProduction d s \<noteq> None
     \<and> m' = m\<lparr>constraints := constraints m @ [production_constraint d s]\<rparr>
     \<and> fst (production_constraint d s) \<notin> fst ` set (constraints m)"
proof -
  have c: "comprehension (\<lambda>c. getitem (map_of (LpVariable_dicts ''quantity_in_tons'' (lane_pairs d) (Some 0) Continuous)) (s, c))
             (filter (\<lambda>c. (s, c) \<in> set (sSources_Customers d)) (sCustomers d))
           = Inr (map (\<lambda>c. quantity (s, c)) (filter (\<lambda>c. (s, c) \<in> set (sSources_Customers d)) (sCustomers d)))"
    by (rule comprehension_map) (simp add: getitem_vQ set_lane_pairs assms(1))
  from assms(2) show ?thesis
    unfolding production_limit_def c
    by (auto simp add: getitem_def production_constraint_def split: option.splits dest!: iadd_constraint_Inr)
qed

lemma demand_limit_Inr:
  assumes "c \<in> set (sCustomers d)"
    and "demand_limit d (LpVariable_dicts ''quantity_in_tons'' (lane_pairs d) (Some 0) Continuous) c m = Inr m'"
  shows "pCustomerDemand d c \<noteq> None
     \<and> m' = m\<lparr>constraints := constraints m @ [demand_constraint d c]\<rparr>
     \<and> fst (demand_constraint d c) \<notin> fst ` set (constraints m)"
proof -
  have c: "comprehension (\<lambda>s. getitem (map_of (LpVariable_dicts ''quantity_in_tons'' (lane_pairs d) (Some 0) Continuous)) (s, c))
             (filter (\<lambda>s. (s, c) \<in> set (sSources_Customers d)) (sSources d))
           = Inr (map (\<lambda>s. quantity (s, c)) (filter (\<lambda>s. (s, c) \<in> set (sSources_Customers d)) (sSources d)))"
    by (rule comprehension_map) (simp add: getitem_vQ set_lane_pairs assms(1))
  from assms(2) show ?thesis
    unfolding demand_limit_def c
    by (auto simp add: getitem_def demand_constraint_def split: option.splits dest!: iadd_constraint_Inr)
qed

lemma fixed_flow_Inr:
  assumes "s \<in> set (sSources d)" and "c \<in> set (sCustomers d)"
    and "fixed_flow d (LpVariable_dicts ''quantity_in_tons'' (lane_pairs d) (Some 0) Continuous) s c m = Inr m'"
  shows "((s, c) \<in> set (sSources_Customers d) \<longrightarrow> pFixedTransportation d (s, c) \<noteq> None)
     \<and> m' = m\<lparr>constraints := constraints m @ fixed_constraints d s c\<rparr>
     \<and> (\<forall>n \<in> fst ` set (fixed_constraints d s c). n \<notin> fst ` set (constraints m))"
proof (cases "(s, c) \<in> set (sSources_Customers d)")
  case False
  with assms(3) show ?thesis
    by (simp add: fixed_flow_def fixed_constraints_def)
next
  case True
  with assms(1,2) have "(s, c) \<in> set (lane_pairs d)" by (simp add: set_lane_pairs)
  from getitem_vQ [OF this] assms(3) True show ?thesis
    by (auto simp add: fixed_flow_def fixed_constraints_def getitem_def
        split: option.splits if_splits dest!: iadd_constraint_Inr)
qed

lemma dom_pTransportationCosts: "dom (pTransportationCosts d) = set (sSources_Customers d)"
  by (simp add: pTransportationCosts_def sSources_Customers_def dom_dict_of_items)

lemma objective_terms_eq:
  "objective_terms d (LpVariable_dicts ''quantity_in_tons'' (lane_pairs d) (Some 0) Continuous) =
     Inr (map (\<lambda>i. Expression (rmul (quantity i) (the (pTransportationCosts d i)))) (lane_pairs d))"
  unfolding objective_terms_def
proof (rule comprehension_map)
  fix i
  assume i: "i \<in> set (lane_pairs d)"
  obtain s c where "i = (s, c)" by (cases i)
  with i have "i \<in> dom (pTransportationCosts d)"
    by (simp add: set_lane_pairs dom_pTransportationCosts)
  then obtain k where "pTransportationCosts d i = Some k" by blast
  with getitem_vQ [OF i]
  show "(case getitem (pTransportationCosts d) i of
          Inl e \<Rightarrow> Inl e
        | Inr k \<Rightarrow>
            (case getitem (map_of (LpVariable_dicts ''quantity_in_tons'' (lane_pairs d) (Some 0) Continuous)) i of
               Inl e \<Rightarrow> Inl e
             | Inr v \<Rightarrow> Inr (Expression (rmul v k))))
        = Inr (Expression (rmul (quantity i) (the (pTransportationCosts d i))))"
    by (simp add: getitem_def)
qed

lemma build_Inr:
  assumes "build d = Inr f"
  shows "vQuantityExchanged f = LpVariable_dicts ''quantity_in_tons'' (lane_pairs d) (Some 0) Continuous"
    and "pname (model f) = ''Network_flows_optimization''"
    and "psense (model f) = LpMinimize"
    and "objective (model f) =
          Some (lpSum (map (\<lambda>i. Expression (rmul (quantity i) (the (pTransportationCosts d i))))
                        (lane_pairs d)))"
    and "constraints (model f) =
          map (production_constraint d) (sSources d) @ map (demand_constraint d) (sCustomers d)
          @ concat (map (\<lambda>s. concat (map (fixed_constraints d s) (sCustomers d))) (sSources d))"
    and "distinct (map fst (constraints (model f)))"
    and "\<forall>s\<in>set (sSources d). pSourceProduction d s \<noteq> None"
    and "\<forall>c\<in>set (sCustomers d). pCustomerDemand d c \<noteq> None"
    and "\<forall>i\<in>set (lane_pairs d). pFixedTransportation d i \<noteq> None"
proof -
  define vQ where "vQ = LpVariable_dicts ''quantity_in_tons'' (lane_pairs d) (Some 0) Continuous"
  define obj where "obj = lpSum (map (\<lambda>i. Expression (rmul (quantity i) (the (pTransportationCosts d i))))
                        (lane_pairs d))"
  define m0 where "m0 = (LpProblem_new ''Network_flows_optimization'' LpMinimize)\<lparr>objective := Some obj\<rparr>"
  define keep where "keep = (\<lambda>m::LpProblem. pname m = ''Network_flows_optimization'' \<and> psense m = LpMinimize
                         \<and> objective m = Some obj \<and> distinct (map fst (constraints m)))"
  from assms obtain m1 m2 m3
    where l1: "for_each (sSources d) (production_limit d vQ) m0 = Inr m1"
      and l2: "for_each (sCustomers d) (demand_limit d vQ) m1 = Inr m2"
      and l3: "for_each (sSources d) (\<lambda>s. for_each (sCustomers d) (fixed_flow d vQ s)) m2 = Inr m3"
      and f: "f = \<lparr>model = m3, vQuantityExchanged = vQ\<rparr>"
    unfolding build_def Let_def objective_terms_eq vQ_def m0_def obj_def
    by (auto split: sum.splits)
  have k0: "keep m0" and c0: "constraints m0 = []"
    by (simp_all add: keep_def m0_def LpProblem_new_def)
  \<comment> \<open>the production limits\<close>
  have s1: "\<And>s a b. s \<in> set (sSources d) \<Longrightarrow> production_limit d vQ s a = Inr b \<Longrightarrow>
              constraints b = constraints a @ [production_constraint d s]"
    unfolding vQ_def by (auto dest!: production_limit_Inr)
  have k1: "keep m1"
    using l1 k0
  proof (rule for_each_invariant)
    fix s a b
    assume "s \<in> set (sSources d)" and "keep a" and "production_limit d vQ s a = Inr b"
    then show "keep b"
      unfolding vQ_def keep_def by (auto dest!: production_limit_Inr)
  qed
  from for_each_extends [of "sSources d" "production_limit d vQ" m0 m1 constraints "\<lambda>s. [production_constraint d s]", OF l1 s1]
  have c1: "constraints m1 = map (production_constraint d) (sSources d)"
    by (simp add: c0)
  have p1: "\<forall>s\<in>set (sSources d). pSourceProduction d s \<noteq> None"
  proof
    fix s assume s: "s \<in> set (sSources d)"
    from for_each_body_ok [OF l1 s] obtain a b where "production_limit d vQ s a = Inr b" by blast
    with s show "pSourceProduction d s \<noteq> None"
      unfolding vQ_def by (auto dest!: production_limit_Inr)
  qed
  \<comment> \<open>the demand limits\<close>
  have s2: "\<And>c a b. c \<in> set (sCustomers d) \<Longrightarrow> demand_limit d vQ c a = Inr b \<Longrightarrow>
              constraints b = constraints a @ [demand_constraint d c]"
    unfolding vQ_def by (auto dest!: demand_limit_Inr)
  have k2: "keep m2"
    using l2 k1
  proof (rule for_each_invariant)
    fix c a b
    assume "c \<in> set (sCustomers d)" and "keep a" and "demand_limit d vQ c a = Inr b"
    then show "keep b"
      unfolding vQ_def keep_def by (auto dest!: demand_limit_Inr)
  qed
  from for_each_extends [of "sCustomers d" "demand_limit d vQ" m1 m2 constraints "\<lambda>c. [demand_constraint d c]", OF l2 s2]
  have c2: "constraints m2 = map (production_constraint d) (sSources d) @ map (demand_constraint d) (sCustomers d)"
    by (simp add: c1)
  have p2: "\<forall>c\<in>set (sCustomers d). pCustomerDemand d c \<noteq> None"
  proof
    fix c assume c: "c \<in> set (sCustomers d)"
    from for_each_body_ok [OF l2 c] obtain a b where "demand_limit d vQ c a = Inr b" by blast
    with c show "pCustomerDemand d c \<noteq> None"
      unfolding vQ_def by (auto dest!: demand_limit_Inr)
  qed
  \<comment> \<open>the fixed flows\<close>
  have s3i: "\<And>s c a b. s \<in> set (sSources d) \<Longrightarrow> c \<in> set (sCustomers d) \<Longrightarrow> fixed_flow d vQ s c a = Inr b \<Longrightarrow>
              constraints b = constraints a @ fixed_constraints d s c"
    unfolding vQ_def by (auto dest!: fixed_flow_Inr)
  have s3: "constraints b = constraints a @ concat (map (fixed_constraints d s) (sCustomers d))"
    if "s \<in> set (sSources d)" and "for_each (sCustomers d) (fixed_flow d vQ s) a = Inr b" for s a b
    using that(2) by (rule for_each_extends) (rule s3i [OF that(1)])
  have k3i: "keep b" if "s \<in> set (sSources d)" and "c \<in> set (sCustomers d)" and "keep a"
    and "fixed_flow d vQ s c a = Inr b" for s c a b
    using fixed_flow_Inr [OF that(1,2) that(4) [unfolded vQ_def]] that(3)
    by (auto simp add: keep_def fixed_constraints_def split: if_splits)
  have k3: "keep m3"
    using l3 k2
  proof (rule for_each_invariant)
    fix s a b
    assume s: "s \<in> set (sSources d)" and a: "keep a"
      and b: "for_each (sCustomers d) (fixed_flow d vQ s) a = Inr b"
    from b a show "keep b"
      by (rule for_each_invariant) (rule k3i [OF s])
  qed
  from for_each_extends [of "sSources d" "\<lambda>s. for_each (sCustomers d) (fixed_flow d vQ s)" m2 m3 constraints
      "\<lambda>s. concat (map (fixed_constraints d s) (sCustomers d))", OF l3 s3]
  have c3: "constraints m3 = map (production_constraint d) (sSources d) @ map (demand_constraint d) (sCustomers d)
          @ concat (map (\<lambda>s. concat (map (fixed_constraints d s) (sCustomers d))) (sSources d))"
    by (simp add: c2)
  have p3: "\<forall>i\<in>set (lane_pairs d). pFixedTransportation d i \<noteq> None"
  proof
    fix i assume i: "i \<in> set (lane_pairs d)"
    obtain s c where sc: "i = (s, c)" by (cases i)
    from i sc have s: "s \<in> set (sSources d)" and c: "c \<in> set (sCustomers d)"
      and l: "(s, c) \<in> set (sSources_Customers d)"
      by (simp_all add: set_lane_pairs)
    from for_each_body_ok [OF l3 s] obtain a b where "for_each (sCustomers d) (fixed_flow d vQ s) a = Inr b"
      by blast
    from for_each_body_ok [OF this c] obtain a' b' where "fixed_flow d vQ s c a' = Inr b'" by blast
    from fixed_flow_Inr [OF s c this [unfolded vQ_def]] l sc
    show "pFixedTransportation d i \<noteq> None" by simp
  qed
  from f show "vQuantityExchanged f = LpVariable_dicts ''quantity_in_tons'' (lane_pairs d) (Some 0) Continuous"
    by (simp add: vQ_def)
  from f k3 show "pname (model f) = ''Network_flows_optimization''" by (simp add: keep_def)
  from f k3 show "psense (model f) = LpMinimize" by (simp add: keep_def)
  from f k3 show "objective (model f) =
          Some (lpSum (map (\<lambda>i. Expression (rmul (quantity i) (the (pTransportationCosts d i))))
                        (lane_pairs d)))" by (simp add: keep_def obj_def)
  from f c3 show "constraints (model f) =
          map (production_constraint d) (sSources d) @ map (demand_constraint d) (sCustomers d)
          @ concat (map (\<lambda>s. concat (map (fixed_constraints d s) (sCustomers d))) (sSources d))" by simp
  from f k3 show "distinct (map fst (constraints (model f)))" by (simp add: keep_def)
  from p1 show "\<forall>s\<in>set (sSources d). pSourceProduction d s \<noteq> None" .
  from p2 show "\<forall>c\<in>set (sCustomers d). pCustomerDemand d c \<noteq> None" .
  from p3 show "\<forall>i\<in>set (lane_pairs d). pFixedTransportation d i \<noteq> None" .
qed

lemma getitem_Inl: "getitem m k = Inl e \<Longrightarrow> e = KeyError"
  by (auto simp add: getitem_def split: option.splits)

lemma iadd_constraint_Inl: "iadd_constraint m c name = Inl e \<Longrightarrow> e = PulpError"
  by (auto simp add: iadd_constraint_def Let_def split: if_splits)

lemma production_limit_Inl:
  "production_limit d vQ s m = Inl e \<Longrightarrow> e = KeyError \<or> e = PulpError"
  by (auto simp add: production_limit_def split: sum.splits
      dest!: comprehension_Inl getitem_Inl iadd_constraint_Inl)

lemma demand_limit_Inl:
  "demand_limit d vQ c m = Inl e \<Longrightarrow> e = KeyError \<or> e = PulpError"
  by (auto simp add: demand_limit_def split: sum.splits
      dest!: comprehension_Inl getitem_Inl iadd_constraint_Inl)

lemma fixed_flow_Inl:
  "fixed_flow d vQ s c m = Inl e \<Longrightarrow> e = KeyError \<or> e = PulpError"
  by (auto simp add: fixed_flow_def split: sum.splits if_splits
      dest!: getitem_Inl iadd_constraint_Inl)

lemma build_Inl:
  assumes "build d = Inl e"
  shows "e = KeyError \<or> e = PulpError"
proof -
  define vQ where "vQ = LpVariable_dicts ''quantity_in_tons'' (lane_pairs d) (Some 0) Continuous"
  from assms consider
      m where "for_each (sSources d) (production_limit d vQ) m = Inl e"
    | m where "for_each (sCustomers d) (demand_limit d vQ) m = Inl e"
    | m where "for_each (sSources d) (\<lambda>s. for_each (sCustomers d) (fixed_flow d vQ s)) m = Inl e"
    unfolding build_def Let_def objective_terms_eq vQ_def
    by (auto split: sum.splits)
  then show ?thesis
  proof cases
    case 1
    from for_each_Inl [OF this] show ?thesis by (auto dest: production_limit_Inl)
  next
    case 2
    from for_each_Inl [OF this] show ?thesis by (auto dest: demand_limit_Inl)
  next
    case 3
    from for_each_Inl [OF this] obtain s m' where "for_each (sCustomers d) (fixed_flow d vQ s) m' = Inl e"
      by blast
    from for_each_Inl [OF this] show ?thesis by (auto dest: fixed_flow_Inl)
  qed
qed

lemma filter_name_distinct:
  "distinct (map fst cs) \<Longrightarrow> (n, c) \<in> set cs \<Longrightarrow> filter (\<lambda>(name, con). name = n) cs = [(n, c)]"
proof (induction cs)
  case Nil
  then show ?case by simp
next
  case (Cons x cs)
  show ?case
  proof (cases "fst x = n")
    case True
    with Cons.prems have "x = (n, c)" and "\<forall>y\<in>set cs. fst y \<noteq> n"
      by (auto simp add: image_iff)
    then show ?thesis by (auto simp add: filter_empty_conv)
  next
    case False
    with Cons show ?thesis by (auto simp add: case_prod_unfold)
  qed
qed

lemma build_distinct:
  assumes "build d = Inr f"
  shows "distinct (sSources d)" and "distinct (sCustomers d)"
proof -
  from build_Inr(5,6) [OF assms]
  have "distinct (map fst (map (production_constraint d) (sSources d)))"
    and "distinct (map fst (map (demand_constraint d) (sCustomers d)))"
    by simp_all
  then show "distinct (sSources d)" and "distinct (sCustomers d)"
    by (simp_all add: distinct_map)
qed

lemma distinct_lane_pairs:
  assumes "build d = Inr f"
  shows "distinct (lane_pairs d)"
  using build_distinct [OF assms] by (simp add: lane_pairs_def distinct_product)

lemma production_expr:
  assumes "build d = Inr f"
  shows "snd (production_constraint d s) =
    \<lparr>expr = map (\<lambda>c. (quantity (s, c), 1)) (filter (\<lambda>c. (s, c) \<in> set (sSources_Customers d)) (sCustomers d)),
     sense = LpConstraintLE, rhs = the (pSourceProduction d s)\<rparr>"
proof -
  from build_distinct(2) [OF assms]
  have "distinct (map (\<lambda>c. quantity (s, c)) (filter (\<lambda>c. (s, c) \<in> set (sSources_Customers d)) (sCustomers d)))"
    by (simp add: distinct_map inj_on_def quantity_eq_iff)
  then have "lpSum (map Element (map (\<lambda>c. quantity (s, c))
                 (filter (\<lambda>c. (s, c) \<in> set (sSources_Customers d)) (sCustomers d))))
      = map (\<lambda>v. (v, 1)) (map (\<lambda>c. quantity (s, c))
                 (filter (\<lambda>c. (s, c) \<in> set (sSources_Customers d)) (sCustomers d)))"
    by (rule lpSum_elements_distinct)
  then show ?thesis
    by (simp add: production_constraint_def comp_def)
qed

lemma demand_expr:
  assumes "build d = Inr f"
  shows "snd (demand_constraint d c) =
    \<lparr>expr = map (\<lambda>s. (quantity (s, c), 1)) (filter (\<lambda>s. (s, c) \<in> set (sSources_Customers d)) (sSources d)),
     sense = LpConstraintGE, rhs = the (pCustomerDemand d c)\<rparr>"
proof -
  from build_distinct(1) [OF assms]
  have "distinct (map (\<lambda>s. quantity (s, c)) (filter (\<lambda>s. (s, c) \<in> set (sSources_Customers d)) (sSources d)))"
    by (simp add: distinct_map inj_on_def quantity_eq_iff)
  then have "lpSum (map Element (map (\<lambda>s. quantity (s, c))
                 (filter (\<lambda>s. (s, c) \<in> set (sSources_Customers d)) (sSources d))))
      = map (\<lambda>v. (v, 1)) (map (\<lambda>s. quantity (s, c))
                 (filter (\<lambda>s. (s, c) \<in> set (sSources_Customers d)) (sSources d)))"
    by (rule lpSum_elements_distinct)
  then show ?thesis
    by (simp add: demand_constraint_def comp_def)
qed

lemma model_variables:
  assumes "build d = Inr f"
  shows "objective (model f) = Some e \<Longrightarrow> fst ` set e \<subseteq> quantity ` set (lane_pairs d)"
    and "con \<in> snd ` set (constraints (model f)) \<Longrightarrow> fst ` set (expr con) \<subseteq> quantity ` set (lane_pairs d)"
proof -
  assume "objective (model f) = Some e"
  with build_Inr(4) [OF assms]
  have "e = lpSum (map Expression (map (\<lambda>i. rmul (quantity i) (the (pTransportationCosts d i))) (lane_pairs d)))"
    by (simp add: comp_def)
  then have "fst ` set e = (\<Union>i\<in>set (lane_pairs d). fst ` set (rmul (quantity i) (the (pTransportationCosts d i))))"
    by (simp only: keys_lpSum_Expression) simp
  then show "fst ` set e \<subseteq> quantity ` set (lane_pairs d)"
    by (auto simp add: rmul_def split: if_splits)
next
  assume "con \<in> snd ` set (constraints (model f))"
  then consider
      s where "s \<in> set (sSources d)" "con = snd (production_constraint d s)"
    | c where "c \<in> set (sCustomers d)" "con = snd (demand_constraint d c)"
    | n s c where "s \<in> set (sSources d)" "c \<in> set (sCustomers d)" "(n, con) \<in> set (fixed_constraints d s c)"
    unfolding build_Inr(5) [OF assms] by auto
  then show "fst ` set (expr con) \<subseteq> quantity ` set (lane_pairs d)"
  proof cases
    case 1
    then have "fst ` set (expr con) = set (map (\<lambda>c. quantity (s, c))
                 (filter (\<lambda>c. (s, c) \<in> set (sSources_Customers d)) (sCustomers d)))"
      by (simp only: production_constraint_def snd_conv LpConstraint.simps keys_lpSum_Element)
    with 1 show ?thesis by (auto simp add: set_lane_pairs)
  next
    case 2
    then have "fst ` set (expr con) = set (map (\<lambda>s. quantity (s, c))
                 (filter (\<lambda>s. (s, c) \<in> set (sSources_Customers d)) (sSources d)))"
      by (simp only: demand_constraint_def snd_conv LpConstraint.simps keys_lpSum_Element)
    with 2 show ?thesis by (auto simp add: set_lane_pairs)
  next
    case 3
    then show ?thesis
      by (auto simp add: fixed_constraints_def set_lane_pairs split: if_splits)
  qed
qed

subsection \<open>The examples\<close>

lemma example_fields:
  "sSources example_data = [''Gou'', ''Arn'']"
  "sCustomers example_data = [''Ams'', ''Ber'']"
  "pSourceProduction example_data = [''Gou'' \<mapsto> 10, ''Arn'' \<mapsto> 5]"
  "pCustomerDemand example_data = [''Ams'' \<mapsto> 4, ''Ber'' \<mapsto> 3]"
  "sSources_Customers example_data = [(''Gou'', ''Ams''), (''Arn'', ''Ams''), (''Arn'', ''Ber'')]"
  "pTransportationCosts example_data =
     [(''Gou'', ''Ams'') \<mapsto> 2, (''Arn'', ''Ams'') \<mapsto> 1, (''Arn'', ''Ber'') \<mapsto> 3]"
  "pFixedTransportation example_data =
     [(''Gou'', ''Ams'') \<mapsto> 0, (''Arn'', ''Ams'') \<mapsto> 1, (''Arn'', ''Ber'') \<mapsto> 0]"
  by (simp_all add: example_data_def sSources_Customers_def pTransportationCosts_def
      pFixedTransportation_def dict_of_items_def)

lemma example_lane_pairs:
  "lane_pairs example_data = [(''Gou'', ''Ams''), (''Arn'', ''Ams''), (''Arn'', ''Ber'')]"
  by (simp add: lane_pairs_def example_fields)

lemma example_vQ:
  "LpVariable_dicts ''quantity_in_tons'' (lane_pairs example_data) (Some 0) Continuous =
     vQuantityExchanged example_formulation"
  unfolding LpVariable_dicts_quantity example_lane_pairs
  by (simp add: example_formulation_def)

lemma example_objective_terms:
  "objective_terms example_data (vQuantityExchanged example_formulation) =
     Inr [Expression [(quantity (''Gou'', ''Ams''), 2)], Expression [(quantity (''Arn'', ''Ams''), 1)],
          Expression [(quantity (''Arn'', ''Ber''), 3)]]"
  unfolding objective_terms_def example_lane_pairs
  by (simp add: example_fields getitem_def example_formulation_def rmul_def)

lemma example_lpSum:
  "lpSum [Expression [(quantity (''Gou'', ''Ams''), 2)], Expression [(quantity (''Arn'', ''Ams''), 1)],
          Expression [(quantity (''Arn'', ''Ber''), 3)]]
   = [(quantity (''Gou'', ''Ams''), 2), (quantity (''Arn'', ''Ams''), 1), (quantity (''Arn'', ''Ber''), 3)]"
  by (simp add: lpSum_def addInPlace_def addterm_def quantity_eq_iff)

lemma build_example: "build example_data = Inr example_formulation"
  unfolding build_def Let_def example_vQ example_objective_terms example_lpSum
  by (simp add: example_fields example_formulation_def LpProblem_new_def production_limit_def
      demand_limit_def fixed_flow_def getitem_def iadd_constraint_def translate_def
      LpAffineExpression_illegal_chars_def lpSum_def addInPlace_def addterm_def quantity_eq_iff)

lemma example_without_fixed_fields:
  "sSources example_data_without_fixed_flow = [''Gou'', ''Arn'']"
  "sCustomers example_data_without_fixed_flow = [''Ams'', ''Ber'']"
  "pSourceProduction example_data_without_fixed_flow = [''Gou'' \<mapsto> 10, ''Arn'' \<mapsto> 5]"
  "pCustomerDemand example_data_without_fixed_flow = [''Ams'' \<mapsto> 4, ''Ber'' \<mapsto> 3]"
  "sSources_Customers example_data_without_fixed_flow = [(''Gou'', ''Ams''), (''Arn'', ''Ams''), (''Arn'', ''Ber'')]"
  "pTransportationCosts example_data_without_fixed_flow =
     [(''Gou'', ''Ams'') \<mapsto> 2, (''Arn'', ''Ams'') \<mapsto> 1, (''Arn'', ''Ber'') \<mapsto> 3]"
  "pFixedTransportation example_data_without_fixed_flow = Map.empty"
  by (simp_all add: example_data_without_fixed_flow_def example_data_def sSources_Customers_def
      pTransportationCosts_def pFixedTransportation_def dict_of_items_def)

lemma example_without_fixed_lane_pairs:
  "lane_pairs example_data_without_fixed_flow = [(''Gou'', ''Ams''), (''Arn'', ''Ams''), (''Arn'', ''Ber'')]"
  by (simp add: lane_pairs_def example_without_fixed_fields)

lemma build_example_without_fixed: "build example_data_without_fixed_flow = Inl KeyError"
proof -
  have vq: "LpVariable_dicts ''quantity_in_tons'' (lane_pairs example_data_without_fixed_flow) (Some 0) Continuous =
     vQuantityExchanged example_formulation"
    unfolding LpVariable_dicts_quantity example_without_fixed_lane_pairs
    by (simp add: example_formulation_def)
  have ot: "objective_terms example_data_without_fixed_flow (vQuantityExchanged example_formulation) =
     Inr [Expression [(quantity (''Gou'', ''Ams''), 2)], Expression [(quantity (''Arn'', ''Ams''), 1)],
          Expression [(quantity (''Arn'', ''Ber''), 3)]]"
    unfolding objective_terms_def example_without_fixed_lane_pairs
    by (simp add: example_without_fixed_fields getitem_def example_formulation_def rmul_def)
  show ?thesis
    unfolding build_def Let_def vq ot example_lpSum
    by (simp add: example_without_fixed_fields example_formulation_def LpProblem_new_def production_limit_def
      demand_limit_def fixed_flow_def getitem_def iadd_constraint_def translate_def
      LpAffineExpression_illegal_chars_def lpSum_def addInPlace_def addterm_def quantity_eq_iff)
qed

lemma example_with_unlisted_source_fields:
  "sSources example_data_with_unlisted_source = [''Gou'', ''Arn'']"
  "sCustomers example_data_with_unlisted_source = [''Ams'', ''Ber'']"
  "pSourceProduction example_data_with_unlisted_source = [''Gou'' \<mapsto> 10, ''Arn'' \<mapsto> 5]"
  "pCustomerDemand example_data_with_unlisted_source = [''Ams'' \<mapsto> 4, ''Ber'' \<mapsto> 3]"
  "sSources_Customers example_data_with_unlisted_source =
     [(''Gou'', ''Ams''), (''Arn'', ''Ams''), (''Arn'', ''Ber''), (''Rot'', ''Ams'')]"
  "pTransportationCosts example_data_with_unlisted_source =
     [(''Gou'', ''Ams'') \<mapsto> 2, (''Arn'', ''Ams'') \<mapsto> 1, (''Arn'', ''Ber'') \<mapsto> 3, (''Rot'', ''Ams'') \<mapsto> 4]"
  "pFixedTransportation example_data_with_unlisted_source =
     [(''Gou'', ''Ams'') \<mapsto> 0, (''Arn'', ''Ams'') \<mapsto> 1, (''Arn'', ''Ber'') \<mapsto> 0]"
  by (simp_all add: example_data_with_unlisted_source_def example_data_def sSources_Customers_def
      pTransportationCosts_def pFixedTransportation_def dict_of_items_def)

lemma example_with_unlisted_source_lane_pairs:
  "lane_pairs example_data_with_unlisted_source = [(''Gou'', ''Ams''), (''Arn'', ''Ams''), (''Arn'', ''Ber'')]"
  by (simp add: lane_pairs_def example_with_unlisted_source_fields)

lemma build_example_with_unlisted_source:
  "build example_data_with_unlisted_source = Inr example_formulation"
proof -
  have vq: "LpVariable_dicts ''quantity_in_tons'' (lane_pairs example_data_with_unlisted_source) (Some 0) Continuous =
     vQuantityExchanged example_formulation"
    unfolding LpVariable_dicts_quantity example_with_unlisted_source_lane_pairs
    by (simp add: example_formulation_def)
  have ot: "objective_terms example_data_with_unlisted_source (vQuantityExchanged example_formulation) =
     Inr [Expression [(quantity (''Gou'', ''Ams''), 2)], Expression [(quantity (''Arn'', ''Ams''), 1)],
          Expression [(quantity (''Arn'', ''Ber''), 3)]]"
    unfolding objective_terms_def example_with_unlisted_source_lane_pairs
    by (simp add: example_with_unlisted_source_fields getitem_def example_formulation_def rmul_def)
  show ?thesis
    unfolding build_def Let_def vq ot example_lpSum
    by (simp add: example_with_unlisted_source_fields example_formulation_def LpProblem_new_def
      production_limit_def demand_limit_def fixed_flow_def getitem_def iadd_constraint_def translate_def
      LpAffineExpression_illegal_chars_def lpSum_def addInPlace_def addterm_def quantity_eq_iff)
qed

lemma build_hyphen: "build hyphen_data = Inr hyphen_formulation"
proof -
  have f: "sSources hyphen_data = [''a-b'']" "sCustomers hyphen_data = [''Ams'']"
    "pSourceProduction hyphen_data = [''a-b'' \<mapsto> 5]" "pCustomerDemand hyphen_data = [''Ams'' \<mapsto> 4]"
    "sSources_Customers hyphen_data = [(''a-b'', ''Ams'')]"
    "pTransportationCosts hyphen_data = [(''a-b'', ''Ams'') \<mapsto> 2]"
    "pFixedTransportation hyphen_data = [(''a-b'', ''Ams'') \<mapsto> 0]"
    by (simp_all add: hyphen_data_def sSources_Customers_def pTransportationCosts_def
        pFixedTransportation_def dict_of_items_def)
  have lp: "lane_pairs hyphen_data = [(''a-b'', ''Ams'')]"
    by (simp add: lane_pairs_def f)
  have vq: "LpVariable_dicts ''quantity_in_tons'' (lane_pairs hyphen_data) (Some 0) Continuous =
     vQuantityExchanged hyphen_formulation"
    unfolding LpVariable_dicts_quantity lp by (simp add: hyphen_formulation_def)
  have ot: "objective_terms hyphen_data (vQuantityExchanged hyphen_formulation) =
     Inr [Expression [(quantity (''a-b'', ''Ams''), 2)]]"
    unfolding objective_terms_def lp
    by (simp add: f getitem_def hyphen_formulation_def rmul_def)
  show ?thesis
    unfolding build_def Let_def vq ot
    by (simp add: f hyphen_formulation_def LpProblem_new_def production_limit_def
      demand_limit_def fixed_flow_def getitem_def iadd_constraint_def translate_def
      LpAffineExpression_illegal_chars_def lpSum_def addInPlace_def addterm_def quantity_eq_iff)
qed

lemma vname_hyphen:
  "vname (quantity (''a-b'', ''Ams'')) =
     ''quantity_in_tons_('' @ [quote] @ ''a_b'' @ [quote] @ '',_'' @ [quote] @ ''Ams'' @ [quote] @ '')''"
  by (simp add: quantity_def LpVariable_new_def str_tuple_def repr_def repr_char_def printable_def
      translate_def LpElement_illegal_chars_def quote_def dquote_def backslash_def Let_def)

lemma infeasible_fields:
    "sSources infeasible_data = [''Gou'']" "sCustomers infeasible_data = [''Ams'']"
    "pSourceProduction infeasible_data = [''Gou'' \<mapsto> 1]" "pCustomerDemand infeasible_data = [''Ams'' \<mapsto> 2]"
    "sSources_Customers infeasible_data = [(''Gou'', ''Ams'')]"
    "pTransportationCosts infeasible_data = [(''Gou'', ''Ams'') \<mapsto> 1]"
    "pFixedTransportation infeasible_data = [(''Gou'', ''Ams'') \<mapsto> 0]"
    by (simp_all add: infeasible_data_def sSources_Customers_def pTransportationCosts_def
        pFixedTransportation_def dict_of_items_def)

lemma infeasible_lane_pairs: "lane_pairs infeasible_data = [(''Gou'', ''Ams'')]"
  by (simp add: lane_pairs_def infeasible_fields)

lemma build_infeasible: "build infeasible_data = Inr infeasible_formulation"
proof -
  have vq: "LpVariable_dicts ''quantity_in_tons'' (lane_pairs infeasible_data) (Some 0) Continuous =
     vQuantityExchanged infeasible_formulation"
    unfolding LpVariable_dicts_quantity infeasible_lane_pairs by (simp add: infeasible_formulation_def)
  have ot: "objective_terms infeasible_data (vQuantityExchanged infeasible_formulation) =
     Inr [Expression [(quantity (''Gou'', ''Ams''), 1)]]"
    unfolding objective_terms_def infeasible_lane_pairs
    by (simp add: infeasible_fields getitem_def infeasible_formulation_def rmul_def)
  show ?thesis
    unfolding build_def Let_def vq ot
    by (simp add: infeasible_fields infeasible_formulation_def LpProblem_new_def production_limit_def
      demand_limit_def fixed_flow_def getitem_def iadd_constraint_def translate_def
      LpAffineExpression_illegal_chars_def lpSum_def addInPlace_def addterm_def quantity_eq_iff)
qed

lemma infeasible_variables:
  "variables (model infeasible_formulation) = [quantity (''Gou'', ''Ams'')]"
  by (simp add: variables_def infeasible_formulation_def addVariables_def)

lemma infeasible_quantity:
  "df_quantity_sources_customers infeasible_data (vQuantityExchanged infeasible_formulation)
     (infeasible_solver infeasible_formulation) = ([PrintQuantity [(''Gou'', ''Ams'', 2)]], None)"
  unfolding df_quantity_sources_customers_def dict_quantity_sources_customers_def infeasible_lane_pairs
  by (simp add: infeasible_formulation_def getitem_def infeasible_solver_def)

lemma infeasible_constraint_rows:
  "list_sensibility_analysis_constraints (model infeasible_formulation) (infeasible_solver infeasible_formulation)
    = [(''c01_production_Gou'', - 1, 0), (''c02_demand_Ams'', 0, 1)]"
  by (simp add: list_sensibility_analysis_constraints_def infeasible_formulation_def infeasible_solver_def)

lemma infeasible_variable_rows:
  "list_sensibility_analysis_variables (model infeasible_formulation) (infeasible_solver infeasible_formulation)
    = [(vname (quantity (''Gou'', ''Ams'')), 2, 0)]"
  by (simp add: list_sensibility_analysis_variables_def infeasible_variables infeasible_solver_def)

section \<open>The claims\<close>

text \<open>
  In the theorems below a build that completes is \<open>build d = Inr f\<close>. The builder loops
  over \<^verbatim>\<open>sSources\<close> and \<^verbatim>\<open>sCustomers\<close> and keeps the pairs that are keys of the cost
  table, so the lanes of the model are the pairs of a listed source and a listed customer
  with a cost (\<open>lane_pairs\<close>); \<open>quantity (s, c)\<close> is the decision variable of the lane.
\<close>

text \<open>
  Claim C1. In a built model, every source \<open>s\<close> of \<^verbatim>\<open>sSources\<close> has exactly one constraint
  under the name made from \<^verbatim>\<open>c01_production_<s>\<close>: the sum of \<open>quantity (s, c)\<close> over the
  customers \<open>c\<close> with \<open>(s, c)\<close> a lane, at most the capacity of \<open>s\<close>. Every customer
  \<open>c\<close> has exactly one constraint under the name made from \<^verbatim>\<open>c02_demand_<c>\<close>: the sum of
  \<open>quantity (s, c)\<close> over the sources \<open>s\<close> with \<open>(s, c)\<close> a lane, at least the demand of
  \<open>c\<close>. Every lane \<open>(s, c)\<close> whose entry in the fixed-flow table is there and is not
  zero has exactly one constraint under the name made from \<^verbatim>\<open>c03_fixed_<s>_<c>\<close>:
  \<open>quantity (s, c)\<close> equal to the entry. "Exactly one" is stated as: the constraints of
  the model with that name are the one-element list.
\<close>

theorem constraints_of_built_model:
  assumes "build d = Inr f"
  shows
   "(s \<in> set (sSources d) \<longrightarrow>
      (\<exists>r. pSourceProduction d s = Some r \<and>
        filter (\<lambda>(name, con). name = translate LpAffineExpression_illegal_chars (''c01_production_'' @ s))
          (constraints (model f))
        = [(translate LpAffineExpression_illegal_chars (''c01_production_'' @ s),
            \<lparr>expr = map (\<lambda>c. (quantity (s, c), 1))
                      (filter (\<lambda>c. (s, c) \<in> set (sSources_Customers d)) (sCustomers d)),
             sense = LpConstraintLE, rhs = r\<rparr>)]))
    \<and> (c \<in> set (sCustomers d) \<longrightarrow>
      (\<exists>r. pCustomerDemand d c = Some r \<and>
        filter (\<lambda>(name, con). name = translate LpAffineExpression_illegal_chars (''c02_demand_'' @ c))
          (constraints (model f))
        = [(translate LpAffineExpression_illegal_chars (''c02_demand_'' @ c),
            \<lparr>expr = map (\<lambda>s. (quantity (s, c), 1))
                      (filter (\<lambda>s. (s, c) \<in> set (sSources_Customers d)) (sSources d)),
             sense = LpConstraintGE, rhs = r\<rparr>)]))
    \<and> (s \<in> set (sSources d) \<and> c \<in> set (sCustomers d) \<and> (s, c) \<in> set (sSources_Customers d)
         \<and> pFixedTransportation d (s, c) = Some x \<and> x \<noteq> 0 \<longrightarrow>
        filter (\<lambda>(name, con). name = translate LpAffineExpression_illegal_chars (''c03_fixed_'' @ s @ ''_'' @ c))
          (constraints (model f))
        = [(translate LpAffineExpression_illegal_chars (''c03_fixed_'' @ s @ ''_'' @ c),
            \<lparr>expr = [(quantity (s, c), 1)], sense = LpConstraintEQ, rhs = x\<rparr>)])"
proof (intro conjI impI)
  note cs = build_Inr(5) [OF assms] and dn = build_Inr(6) [OF assms]
  {
    assume s: "s \<in> set (sSources d)"
    with build_Inr(7) [OF assms] obtain r where r: "pSourceProduction d s = Some r" by auto
    from s have "production_constraint d s \<in> set (constraints (model f))"
      by (simp add: cs)
    then have "(fst (production_constraint d s), snd (production_constraint d s)) \<in> set (constraints (model f))"
      by simp
    from filter_name_distinct [OF dn this] r
    show "\<exists>r. pSourceProduction d s = Some r \<and>
        filter (\<lambda>(name, con). name = translate LpAffineExpression_illegal_chars (''c01_production_'' @ s))
          (constraints (model f))
        = [(translate LpAffineExpression_illegal_chars (''c01_production_'' @ s),
            \<lparr>expr = map (\<lambda>c. (quantity (s, c), 1))
                      (filter (\<lambda>c. (s, c) \<in> set (sSources_Customers d)) (sCustomers d)),
             sense = LpConstraintLE, rhs = r\<rparr>)]"
      unfolding production_expr [OF assms] by (simp add: production_constraint_def)
  }
  {
    assume c: "c \<in> set (sCustomers d)"
    with build_Inr(8) [OF assms] obtain r where r: "pCustomerDemand d c = Some r" by auto
    from c have "demand_constraint d c \<in> set (constraints (model f))"
      by (simp add: cs)
    then have "(fst (demand_constraint d c), snd (demand_constraint d c)) \<in> set (constraints (model f))"
      by simp
    from filter_name_distinct [OF dn this] r
    show "\<exists>r. pCustomerDemand d c = Some r \<and>
        filter (\<lambda>(name, con). name = translate LpAffineExpression_illegal_chars (''c02_demand_'' @ c))
          (constraints (model f))
        = [(translate LpAffineExpression_illegal_chars (''c02_demand_'' @ c),
            \<lparr>expr = map (\<lambda>s. (quantity (s, c), 1))
                      (filter (\<lambda>s. (s, c) \<in> set (sSources_Customers d)) (sSources d)),
             sense = LpConstraintGE, rhs = r\<rparr>)]"
      unfolding demand_expr [OF assms] by (simp add: demand_constraint_def)
  }
  {
    assume h: "s \<in> set (sSources d) \<and> c \<in> set (sCustomers d) \<and> (s, c) \<in> set (sSources_Customers d)
         \<and> pFixedTransportation d (s, c) = Some x \<and> x \<noteq> 0"
    then have fc: "fixed_constraints d s c =
        [(translate LpAffineExpression_illegal_chars (''c03_fixed_'' @ s @ ''_'' @ c),
            \<lparr>expr = [(quantity (s, c), 1)], sense = LpConstraintEQ, rhs = x\<rparr>)]"
      by (simp add: fixed_constraints_def)
    from h have "set (fixed_constraints d s c) \<subseteq> set (constraints (model f))"
      unfolding cs by auto
    then have "(translate LpAffineExpression_illegal_chars (''c03_fixed_'' @ s @ ''_'' @ c),
            \<lparr>expr = [(quantity (s, c), 1)], sense = LpConstraintEQ, rhs = x\<rparr>) \<in> set (constraints (model f))"
      unfolding fc by simp
    from filter_name_distinct [OF dn this]
    show "filter (\<lambda>(name, con). name = translate LpAffineExpression_illegal_chars (''c03_fixed_'' @ s @ ''_'' @ c))
          (constraints (model f))
        = [(translate LpAffineExpression_illegal_chars (''c03_fixed_'' @ s @ ''_'' @ c),
            \<lparr>expr = [(quantity (s, c), 1)], sense = LpConstraintEQ, rhs = x\<rparr>)]" .
  }
qed

theorem constraints_of_built_model_witness:
  "build example_data = Inr example_formulation
   \<and> ''Arn'' \<in> set (sSources example_data) \<and> ''Ams'' \<in> set (sCustomers example_data)
   \<and> (''Arn'', ''Ams'') \<in> set (sSources_Customers example_data)
   \<and> pFixedTransportation example_data (''Arn'', ''Ams'') = Some 1 \<and> (1::real) \<noteq> 0
   \<and> filter (\<lambda>(name, con). name = ''c01_production_Arn'') (constraints (model example_formulation))
       = [(''c01_production_Arn'',
           \<lparr>expr = [(quantity (''Arn'', ''Ams''), 1), (quantity (''Arn'', ''Ber''), 1)],
            sense = LpConstraintLE, rhs = 5\<rparr>)]
   \<and> filter (\<lambda>(name, con). name = ''c02_demand_Ams'') (constraints (model example_formulation))
       = [(''c02_demand_Ams'',
           \<lparr>expr = [(quantity (''Gou'', ''Ams''), 1), (quantity (''Arn'', ''Ams''), 1)],
            sense = LpConstraintGE, rhs = 4\<rparr>)]
   \<and> filter (\<lambda>(name, con). name = ''c03_fixed_Arn_Ams'') (constraints (model example_formulation))
       = [(''c03_fixed_Arn_Ams'',
           \<lparr>expr = [(quantity (''Arn'', ''Ams''), 1)], sense = LpConstraintEQ, rhs = 1\<rparr>)]"
  using constraints_of_built_model [OF build_example, of "''Arn''" "''Ams''" 1] build_example
  by (simp add: example_fields translate_def LpAffineExpression_illegal_chars_def)

text \<open>
  Claim C2. The built model is a minimisation. The value of its objective, for any
  values of the variables, is the sum over the lanes (the pairs of a listed source and a
  listed customer that are keys of the cost table) of the cost of the lane times the value
  of its variable. The dictionary of the variables has exactly these lanes as keys, and
  every variable is continuous, with lower bound 0 and no upper bound.
\<close>

theorem objective_of_built_model:
  assumes "build d = Inr f"
  shows "psense (model f) = LpMinimize
    \<and> (\<forall>i \<in> set (sSources d) \<times> set (sCustomers d).
          i \<in> set (sSources_Customers d) \<longrightarrow> (\<exists>k. pTransportationCosts d i = Some k))
    \<and> (\<exists>e. objective (model f) = Some e \<and>
          (\<forall>sol. value_of e sol =
             (\<Sum>i \<in> {i \<in> set (sSources d) \<times> set (sCustomers d). i \<in> set (sSources_Customers d)}.
                the (pTransportationCosts d i) * varValue sol (quantity i))))
    \<and> fst ` set (vQuantityExchanged f)
         = {i \<in> set (sSources d) \<times> set (sCustomers d). i \<in> set (sSources_Customers d)}
    \<and> (\<forall>(i, v) \<in> set (vQuantityExchanged f).
          v = quantity i \<and> cat v = Continuous \<and> lowBound v = Some 0 \<and> upBound v = None)"
proof (intro conjI)
  show "psense (model f) = LpMinimize" by (rule build_Inr(3) [OF assms])
  show "\<forall>i \<in> set (sSources d) \<times> set (sCustomers d).
          i \<in> set (sSources_Customers d) \<longrightarrow> (\<exists>k. pTransportationCosts d i = Some k)"
    using dom_pTransportationCosts [of d] by auto
  have "value_of (lpSum (map (\<lambda>i. Expression (rmul (quantity i) (the (pTransportationCosts d i))))
                        (lane_pairs d))) sol
        = (\<Sum>i \<in> {i \<in> set (sSources d) \<times> set (sCustomers d). i \<in> set (sSources_Customers d)}.
                the (pTransportationCosts d i) * varValue sol (quantity i))" for sol
  proof -
    have "value_of (lpSum (map Expression (map (\<lambda>i. rmul (quantity i) (the (pTransportationCosts d i)))
                        (lane_pairs d)))) sol
          = sum_list (map (\<lambda>e. value_of e sol) (map (\<lambda>i. rmul (quantity i) (the (pTransportationCosts d i)))
                        (lane_pairs d)))"
      by (rule value_of_lpSum_Expression)
    also have "\<dots> = sum_list (map (\<lambda>i. the (pTransportationCosts d i) * varValue sol (quantity i)) (lane_pairs d))"
      by (simp add: comp_def value_of_rmul)
    also have "\<dots> = (\<Sum>i \<in> set (lane_pairs d). the (pTransportationCosts d i) * varValue sol (quantity i))"
      by (rule sum_list_distinct_conv_sum_set [OF distinct_lane_pairs [OF assms]])
    finally show ?thesis by (simp add: set_lane_pairs_eq comp_def)
  qed
  with build_Inr(4) [OF assms]
  show "\<exists>e. objective (model f) = Some e \<and>
          (\<forall>sol. value_of e sol =
             (\<Sum>i \<in> {i \<in> set (sSources d) \<times> set (sCustomers d). i \<in> set (sSources_Customers d)}.
                the (pTransportationCosts d i) * varValue sol (quantity i)))"
    by simp
  show "fst ` set (vQuantityExchanged f)
         = {i \<in> set (sSources d) \<times> set (sCustomers d). i \<in> set (sSources_Customers d)}"
    by (simp add: build_Inr(1) [OF assms] keys_vQ set_lane_pairs_eq)
  show "\<forall>(i, v) \<in> set (vQuantityExchanged f).
          v = quantity i \<and> cat v = Continuous \<and> lowBound v = Some 0 \<and> upBound v = None"
  proof (clarify)
    fix i v
    assume iv: "(i, v) \<in> set (vQuantityExchanged f)"
    have "distinct (map fst (vQuantityExchanged f))"
      by (simp only: build_Inr(1) [OF assms] distinct_LpVariable_dicts)
    with iv have "map_of (vQuantityExchanged f) i = Some v" by simp
    then have "v = quantity i"
      by (simp add: build_Inr(1) [OF assms] map_of_LpVariable_dicts quantity_def split: if_splits)
    then show "v = quantity i \<and> cat v = Continuous \<and> lowBound v = Some 0 \<and> upBound v = None"
      by (simp add: quantity_def LpVariable_new_def)
  qed
qed

theorem objective_of_built_model_witness:
  "build example_data = Inr example_formulation
   \<and> psense (model example_formulation) = LpMinimize
   \<and> (\<exists>e. objective (model example_formulation) = Some e \<and>
          (\<forall>sol. value_of e sol =
             (\<Sum>i \<in> {i \<in> set (sSources example_data) \<times> set (sCustomers example_data).
                       i \<in> set (sSources_Customers example_data)}.
                the (pTransportationCosts example_data i) * varValue sol (quantity i))))
   \<and> fst ` set (vQuantityExchanged example_formulation)
         = {(''Gou'', ''Ams''), (''Arn'', ''Ams''), (''Arn'', ''Ber'')}
   \<and> map (\<lambda>(i, v). (cat v, lowBound v, upBound v)) (vQuantityExchanged example_formulation)
         = [(Continuous, Some 0, None), (Continuous, Some 0, None), (Continuous, Some 0, None)]"
proof -
  note t = objective_of_built_model [OF build_example]
  have a: "fst ` set (vQuantityExchanged example_formulation)
         = {(''Gou'', ''Ams''), (''Arn'', ''Ams''), (''Arn'', ''Ber'')}"
    by (simp add: example_formulation_def)
  have b: "map (\<lambda>(i, v). (cat v, lowBound v, upBound v)) (vQuantityExchanged example_formulation)
         = [(Continuous, Some 0, None), (Continuous, Some 0, None), (Continuous, Some 0, None)]"
    by (simp add: example_formulation_def quantity_def LpVariable_new_def)
  from build_example t a b show ?thesis by blast
qed

text \<open>
  Claim C3 as it is written fails in its last part. A cost entry for a source that is not
  in \<^verbatim>\<open>sSources\<close> is a key of the cost table, the build completes, and the model has no
  variable for it: the lanes of the model are not the keys of the cost table.
\<close>

theorem unlisted_source_is_no_lane:
  "build example_data_with_unlisted_source = Inr example_formulation
   \<and> (''Rot'', ''Ams'') \<in> set (sSources_Customers example_data_with_unlisted_source)
   \<and> pTransportationCosts example_data_with_unlisted_source (''Rot'', ''Ams'') = Some 4
   \<and> map_of (vQuantityExchanged example_formulation) (''Rot'', ''Ams'') = None
   \<and> fst ` set (vQuantityExchanged example_formulation)
        \<noteq> set (sSources_Customers example_data_with_unlisted_source)"
proof -
  have a: "(''Rot'', ''Ams'') \<in> set (sSources_Customers example_data_with_unlisted_source)"
    by (simp add: example_with_unlisted_source_fields)
  have b: "map_of (vQuantityExchanged example_formulation) (''Rot'', ''Ams'') = None"
    by (simp add: example_formulation_def)
  then have c: "(''Rot'', ''Ams'') \<notin> fst ` set (vQuantityExchanged example_formulation)"
    by (simp add: map_of_eq_None_iff)
  from a c have "fst ` set (vQuantityExchanged example_formulation)
        \<noteq> set (sSources_Customers example_data_with_unlisted_source)"
    by blast
  with a b build_example_with_unlisted_source show ?thesis
    by (simp add: example_with_unlisted_source_fields)
qed

text \<open>
  Claim C3, as amended. For a source \<open>s\<close> of \<^verbatim>\<open>sSources\<close> and a customer \<open>c\<close> of
  \<^verbatim>\<open>sCustomers\<close> with \<open>(s, c)\<close> not a key of the cost table, the built model has no
  variable for \<open>(s, c)\<close>, and no term for it in the objective or in any constraint. For
  a pair of a listed source and a listed customer, being a lane of the model is the same
  as being a key of the cost table, and the lanes of the model are exactly the keys of the
  cost table whose source is in \<^verbatim>\<open>sSources\<close> and whose customer is in \<^verbatim>\<open>sCustomers\<close>.
\<close>

theorem lanes_of_built_model:
  assumes "build d = Inr f"
  shows "(s \<in> set (sSources d) \<and> c \<in> set (sCustomers d) \<and> (s, c) \<notin> set (sSources_Customers d) \<longrightarrow>
           map_of (vQuantityExchanged f) (s, c) = None
           \<and> (\<forall>v \<in> snd ` set (vQuantityExchanged f). index v \<noteq> (s, c))
           \<and> (\<forall>e. objective (model f) = Some e \<longrightarrow> (\<forall>v \<in> fst ` set e. index v \<noteq> (s, c)))
           \<and> (\<forall>con \<in> snd ` set (constraints (model f)). \<forall>v \<in> fst ` set (expr con). index v \<noteq> (s, c)))
    \<and> (s \<in> set (sSources d) \<and> c \<in> set (sCustomers d) \<longrightarrow>
           ((s, c) \<in> fst ` set (vQuantityExchanged f) \<longleftrightarrow> (s, c) \<in> set (sSources_Customers d)))
    \<and> fst ` set (vQuantityExchanged f)
         = {i \<in> set (sSources d) \<times> set (sCustomers d). i \<in> set (sSources_Customers d)}"
proof -
  note vq = build_Inr(1) [OF assms]
  have keys: "fst ` set (vQuantityExchanged f) = set (lane_pairs d)"
    by (simp add: vq keys_vQ)
  have vals: "v \<in> quantity ` set (lane_pairs d)" if "v \<in> snd ` set (vQuantityExchanged f)" for v
  proof -
    from that obtain i where iv: "(i, v) \<in> set (vQuantityExchanged f)" by auto
    have "distinct (map fst (vQuantityExchanged f))"
      by (simp only: vq distinct_LpVariable_dicts)
    with iv have "map_of (vQuantityExchanged f) i = Some v" by simp
    then show ?thesis
      by (auto simp add: vq map_of_LpVariable_dicts quantity_def split: if_splits)
  qed
  have no: "index v \<noteq> (s, c)" if "(s, c) \<notin> set (sSources_Customers d)" and "v \<in> quantity ` set (lane_pairs d)" for v
    using that by (auto simp add: index_quantity set_lane_pairs)
  show ?thesis
  proof (intro conjI impI)
    assume h: "s \<in> set (sSources d) \<and> c \<in> set (sCustomers d) \<and> (s, c) \<notin> set (sSources_Customers d)"
    then show "map_of (vQuantityExchanged f) (s, c) = None"
      by (simp add: vq map_of_LpVariable_dicts set_lane_pairs)
    from h vals no show "\<forall>v \<in> snd ` set (vQuantityExchanged f). index v \<noteq> (s, c)"
      by blast
    from h model_variables(1) [OF assms] no
    show "\<forall>e. objective (model f) = Some e \<longrightarrow> (\<forall>v \<in> fst ` set e. index v \<noteq> (s, c))"
      by blast
    from h model_variables(2) [OF assms] no
    show "\<forall>con \<in> snd ` set (constraints (model f)). \<forall>v \<in> fst ` set (expr con). index v \<noteq> (s, c)"
      by blast
  next
    assume "s \<in> set (sSources d) \<and> c \<in> set (sCustomers d)"
    then show "(s, c) \<in> fst ` set (vQuantityExchanged f) \<longleftrightarrow> (s, c) \<in> set (sSources_Customers d)"
      by (simp add: keys set_lane_pairs)
  next
    show "fst ` set (vQuantityExchanged f)
         = {i \<in> set (sSources d) \<times> set (sCustomers d). i \<in> set (sSources_Customers d)}"
      by (simp add: keys set_lane_pairs_eq)
  qed
qed

theorem lanes_of_built_model_witness:
  "build example_data_with_unlisted_source = Inr example_formulation
   \<and> ''Gou'' \<in> set (sSources example_data_with_unlisted_source)
   \<and> ''Ber'' \<in> set (sCustomers example_data_with_unlisted_source)
   \<and> (''Gou'', ''Ber'') \<notin> set (sSources_Customers example_data_with_unlisted_source)
   \<and> map_of (vQuantityExchanged example_formulation) (''Gou'', ''Ber'') = None
   \<and> (''Gou'', ''Ber'') \<notin> fst ` set (vQuantityExchanged example_formulation)
   \<and> ''Arn'' \<in> set (sSources example_data_with_unlisted_source)
   \<and> (''Arn'', ''Ber'') \<in> set (sSources_Customers example_data_with_unlisted_source)
   \<and> (''Arn'', ''Ber'') \<in> fst ` set (vQuantityExchanged example_formulation)
   \<and> fst ` set (vQuantityExchanged example_formulation)
        = {i \<in> set (sSources example_data_with_unlisted_source)
                 \<times> set (sCustomers example_data_with_unlisted_source).
             i \<in> set (sSources_Customers example_data_with_unlisted_source)}"
proof -
  note t = lanes_of_built_model [OF build_example_with_unlisted_source]
  have m: "''Gou'' \<in> set (sSources example_data_with_unlisted_source)"
    "''Ber'' \<in> set (sCustomers example_data_with_unlisted_source)"
    "(''Gou'', ''Ber'') \<notin> set (sSources_Customers example_data_with_unlisted_source)"
    "''Arn'' \<in> set (sSources example_data_with_unlisted_source)"
    "(''Arn'', ''Ber'') \<in> set (sSources_Customers example_data_with_unlisted_source)"
    by (simp_all add: example_with_unlisted_source_fields)
  from t [of "''Gou''" "''Ber''"] m
  have a: "map_of (vQuantityExchanged example_formulation) (''Gou'', ''Ber'') = None"
    and b: "(''Gou'', ''Ber'') \<notin> fst ` set (vQuantityExchanged example_formulation)"
    by blast+
  from t [of "''Arn''" "''Ber''"] m
  have c: "(''Arn'', ''Ber'') \<in> fst ` set (vQuantityExchanged example_formulation)"
    and e: "fst ` set (vQuantityExchanged example_formulation)
        = {i \<in> set (sSources example_data_with_unlisted_source)
                 \<times> set (sCustomers example_data_with_unlisted_source).
             i \<in> set (sSources_Customers example_data_with_unlisted_source)}"
    by blast+
  from build_example_with_unlisted_source m a b c e show ?thesis by blast
qed

text \<open>
  Claim C4 as it is written fails. On the instance with no feasible flow, with a solver
  that returns the status Infeasible, the function prints the status and then the cost,
  the flows, both tables of the sensitivity analysis and a conclusion for the binding
  demand constraint.
\<close>

theorem infeasible_status_still_interpreted:
  "build infeasible_data = Inr infeasible_formulation
   \<and> status (infeasible_solver infeasible_formulation) = Infeasible
   \<and> solve_problem_using_pulp infeasible_solver infeasible_data =
      ([Print [S newline],
        Print [S ''Solver status: '', S ''Infeasible'', S newline],
        Print [S ''Total transportation cost: '', N 2, S newline],
        Print [S ''Quantity exchanged between sources and customers:''],
        PrintQuantity [(''Gou'', ''Ams'', 2)],
        Print [S newline],
        Print [S ''Sensibility analysis - constraints:''],
        PrintConstraints [(''c01_production_Gou'', - 1, 0), (''c02_demand_Ams'', 0, 1)],
        Print [S newline],
        Print [S ''The total transportation cost would be increased in'', N 1,
               S ''euros for each additional ton supply at'', S ''Ams''],
        Print [S newline],
        Print [S ''Sensibility analysis - variables:''],
        PrintVariables [(vname (quantity (''Gou'', ''Ams'')), 2, 0)],
        Print [S newline],
        Print [S newline]], None)"
proof -
  have r: "report infeasible_data infeasible_formulation (infeasible_solver infeasible_formulation) =
      ([Print [S newline],
        Print [S ''Solver status: '', S ''Infeasible'', S newline],
        Print [S ''Total transportation cost: '', N 2, S newline],
        Print [S ''Quantity exchanged between sources and customers:''],
        PrintQuantity [(''Gou'', ''Ams'', 2)],
        Print [S newline],
        Print [S ''Sensibility analysis - constraints:''],
        PrintConstraints [(''c01_production_Gou'', - 1, 0), (''c02_demand_Ams'', 0, 1)],
        Print [S newline],
        Print [S ''The total transportation cost would be increased in'', N 1,
               S ''euros for each additional ton supply at'', S ''Ams''],
        Print [S newline],
        Print [S ''Sensibility analysis - variables:''],
        PrintVariables [(vname (quantity (''Gou'', ''Ams'')), 2, 0)],
        Print [S newline],
        Print [S newline]], None)"
    unfolding report_def infeasible_quantity infeasible_constraint_rows infeasible_variable_rows
    by (simp add: seq_def then_run_def say_def infeasible_formulation_def infeasible_solver_def
        LpStatus_def value_of_def conclusions_constraints_def conclusions_variables_def
        print_conclusions_constraints_sensibility_analysis_def constraint_number_of_def
        digit_value_def location_of_def infeasible_fields)
  show ?thesis
    by (simp add: solve_problem_using_pulp_def build_infeasible r) (simp add: infeasible_solver_def)
qed

text \<open>
  Claim C4, as amended. The report does not test the status of the solver: with another
  status the run prints the same items and ends the same way, but for the line that
  prints the status (the second item).
\<close>

theorem report_does_not_test_status:
  "report d f (sol\<lparr>status := st\<rparr>) =
     ((fst (report d f sol))[1 := Print [S ''Solver status: '', S (LpStatus st), S newline]],
      snd (report d f sol))"
  unfolding report_def seq_say_say value_of_status df_quantity_status list_constraints_status
    list_variables_status
  by simp

text \<open>
  Claim C5 as it is written fails. With a lane that is not in the fixed-flow table, the
  builder raises KeyError: \<^verbatim>\<open>pFixedTransportation[s, c]\<close> is a plain dictionary access.
\<close>

theorem absent_fixed_flow_entry_raises:
  "(''Gou'', ''Ams'') \<in> set (sSources_Customers example_data_without_fixed_flow)
   \<and> pFixedTransportation example_data_without_fixed_flow (''Gou'', ''Ams'') = None
   \<and> build example_data_without_fixed_flow = Inl KeyError"
  by (simp add: build_example_without_fixed example_without_fixed_fields)

text \<open>
  Claim C5, as amended. When the build completes, every lane of the model has an entry
  in the fixed-flow table, and the model has an equality constraint on the variable of
  the lane if and only if the entry is not zero: a zero entry means no fixed constraint.
  An entry that is absent is not read as zero: the build does not complete, it ends with
  KeyError or with PulpError.
\<close>

theorem fixed_flow_entry_needed:
  "(build d = Inr f \<and> s \<in> set (sSources d) \<and> c \<in> set (sCustomers d) \<and> (s, c) \<in> set (sSources_Customers d) \<longrightarrow>
      (\<exists>x. pFixedTransportation d (s, c) = Some x \<and>
         ((\<exists>con \<in> snd ` set (constraints (model f)).
              sense con = LpConstraintEQ \<and> expr con = [(quantity (s, c), 1)]) \<longleftrightarrow> x \<noteq> 0)))
   \<and> (s \<in> set (sSources d) \<and> c \<in> set (sCustomers d) \<and> (s, c) \<in> set (sSources_Customers d)
        \<and> pFixedTransportation d (s, c) = None \<longrightarrow>
          build d = Inl KeyError \<or> build d = Inl PulpError)"
proof (intro conjI impI)
  assume h: "build d = Inr f \<and> s \<in> set (sSources d) \<and> c \<in> set (sCustomers d) \<and> (s, c) \<in> set (sSources_Customers d)"
  then have b: "build d = Inr f" by simp
  from h have "(s, c) \<in> set (lane_pairs d)" by (simp add: set_lane_pairs)
  with build_Inr(9) [OF b] obtain x where x: "pFixedTransportation d (s, c) = Some x" by auto
  have "(\<exists>con \<in> snd ` set (constraints (model f)).
              sense con = LpConstraintEQ \<and> expr con = [(quantity (s, c), 1)]) \<longleftrightarrow> x \<noteq> 0"
  proof
    assume "\<exists>con \<in> snd ` set (constraints (model f)).
              sense con = LpConstraintEQ \<and> expr con = [(quantity (s, c), 1)]"
    then obtain con where m: "con \<in> snd ` set (constraints (model f))"
      and e: "sense con = LpConstraintEQ" "expr con = [(quantity (s, c), 1)]" by blast
    from m consider
        s' where "con = snd (production_constraint d s')"
      | c' where "con = snd (demand_constraint d c')"
      | n s' c' where "(n, con) \<in> set (fixed_constraints d s' c')"
      unfolding build_Inr(5) [OF b] by auto
    then show "x \<noteq> 0"
    proof cases
      case 1
      with e show ?thesis by (simp add: production_constraint_def)
    next
      case 2
      with e show ?thesis by (simp add: demand_constraint_def)
    next
      case 3
      with e x show ?thesis
        by (auto simp add: fixed_constraints_def quantity_eq_iff split: if_splits)
    qed
  next
    assume "x \<noteq> 0"
    with h x have "fixed_constraints d s c =
        [(translate LpAffineExpression_illegal_chars (''c03_fixed_'' @ s @ ''_'' @ c),
            \<lparr>expr = [(quantity (s, c), 1)], sense = LpConstraintEQ, rhs = x\<rparr>)]"
      by (simp add: fixed_constraints_def)
    moreover from h have "set (fixed_constraints d s c) \<subseteq> set (constraints (model f))"
      unfolding build_Inr(5) [OF b] by auto
    ultimately have "\<lparr>expr = [(quantity (s, c), 1)], sense = LpConstraintEQ, rhs = x\<rparr>
        \<in> snd ` set (constraints (model f))"
      by force
    then show "\<exists>con \<in> snd ` set (constraints (model f)).
              sense con = LpConstraintEQ \<and> expr con = [(quantity (s, c), 1)]"
      by (rule bexI [rotated]) simp
  qed
  with x show "\<exists>x. pFixedTransportation d (s, c) = Some x \<and>
         ((\<exists>con \<in> snd ` set (constraints (model f)).
              sense con = LpConstraintEQ \<and> expr con = [(quantity (s, c), 1)]) \<longleftrightarrow> x \<noteq> 0)"
    by blast
next
  assume h: "s \<in> set (sSources d) \<and> c \<in> set (sCustomers d) \<and> (s, c) \<in> set (sSources_Customers d)
        \<and> pFixedTransportation d (s, c) = None"
  then have l: "(s, c) \<in> set (lane_pairs d)" by (simp add: set_lane_pairs)
  show "build d = Inl KeyError \<or> build d = Inl PulpError"
  proof (cases "build d")
    case (Inl e)
    with build_Inl [OF Inl] show ?thesis by auto
  next
    case (Inr g)
    from build_Inr(9) [OF Inr] l h show ?thesis by auto
  qed
qed

theorem fixed_flow_entry_needed_witness:
  "build example_data = Inr example_formulation
   \<and> ''Gou'' \<in> set (sSources example_data) \<and> ''Ams'' \<in> set (sCustomers example_data)
   \<and> (''Gou'', ''Ams'') \<in> set (sSources_Customers example_data)
   \<and> pFixedTransportation example_data (''Gou'', ''Ams'') = Some 0
   \<and> \<not> (\<exists>con \<in> snd ` set (constraints (model example_formulation)).
              sense con = LpConstraintEQ \<and> expr con = [(quantity (''Gou'', ''Ams''), 1)])
   \<and> ''Gou'' \<in> set (sSources example_data_without_fixed_flow)
   \<and> ''Ams'' \<in> set (sCustomers example_data_without_fixed_flow)
   \<and> (''Gou'', ''Ams'') \<in> set (sSources_Customers example_data_without_fixed_flow)
   \<and> pFixedTransportation example_data_without_fixed_flow (''Gou'', ''Ams'') = None
   \<and> (build example_data_without_fixed_flow = Inl KeyError
        \<or> build example_data_without_fixed_flow = Inl PulpError)"
  using fixed_flow_entry_needed [of example_data example_formulation "''Gou''" "''Ams''"]
    fixed_flow_entry_needed [of example_data_without_fixed_flow example_formulation "''Gou''" "''Ams''"]
    build_example
  by (simp add: example_fields example_without_fixed_fields)

text \<open>
  Claim C6 as it is written fails: the row of a fixed-flow constraint with slack 0 gives
  no statement.
\<close>

theorem binding_fixed_flow_row_without_statement:
  "conclusions_constraints [(''c03_fixed_Arn_Ams'', 0, 6 / 10)] [''Gou'', ''Arn''] = ([], None)"
  by (simp add: conclusions_constraints_def seq_def then_run_def
      print_conclusions_constraints_sensibility_analysis_def constraint_number_of_def digit_value_def)

text \<open>
  Claim C6, as amended. When the conclusions are printed without an exception, the
  output is made of the rows in order: a row of the constraints gives a statement if and
  only if its slack is 0 and the number in its name is at most 2 (a fixed-flow constraint
  gives none, binding or not); a row of the variables gives exactly one statement if its
  value is 0 and none otherwise.
\<close>

theorem conclusions_for_binding_rows:
  "(conclusions_constraints crows sources = (couts, None) \<longrightarrow>
      couts = concat (map (\<lambda>(name, sl, p).
                if sl = 0 then fst (print_conclusions_constraints_sensibility_analysis name p sources)
                else []) crows)
      \<and> (\<forall>(name, sl, p) \<in> set crows. sl = 0 \<longrightarrow>
            (fst (print_conclusions_constraints_sensibility_analysis name p sources) \<noteq> []
              \<longleftrightarrow> (\<exists>n. constraint_number_of name = Inr n \<and> n \<le> 2))))
   \<and> (conclusions_variables vrows = (vouts, None) \<longrightarrow>
      vouts = concat (map (\<lambda>(name, val, r).
                if val = 0 then fst (print_conclusions_variables_sensibility_analysis name r)
                else []) vrows)
      \<and> (\<forall>(name, val, r) \<in> set vrows. val = 0 \<longrightarrow>
            length (fst (print_conclusions_variables_sensibility_analysis name r)) = 1))"
proof (intro conjI impI)
  assume a: "conclusions_constraints crows sources = (couts, None)"
  then have ne: "crows \<noteq> []"
    by (auto simp add: conclusions_constraints_def raise_def)
  with a have s: "seq (map (\<lambda>(name, sl, p). print_conclusions_constraints_sensibility_analysis name p sources)
                 (filter (\<lambda>(name, sl, p). sl = 0) crows)) = (couts, None)"
    by (simp add: conclusions_constraints_def)
  from seq_map_ok [OF s]
  show "couts = concat (map (\<lambda>(name, sl, p).
                if sl = 0 then fst (print_conclusions_constraints_sensibility_analysis name p sources)
                else []) crows)"
    by (simp add: concat_map_filter_if case_prod_unfold)
  have "fst (print_conclusions_constraints_sensibility_analysis name p sources) \<noteq> []
              \<longleftrightarrow> (\<exists>n. constraint_number_of name = Inr n \<and> n \<le> 2)"
    if "(name, sl, p) \<in> set crows" and "sl = 0" for name sl p
  proof -
    from that seq_map_ok [OF s]
    have "snd (print_conclusions_constraints_sensibility_analysis name p sources) = None"
      by auto
    then show ?thesis by (rule print_constraints_ok_iff)
  qed
  then show "\<forall>(name, sl, p) \<in> set crows. sl = 0 \<longrightarrow>
            (fst (print_conclusions_constraints_sensibility_analysis name p sources) \<noteq> []
              \<longleftrightarrow> (\<exists>n. constraint_number_of name = Inr n \<and> n \<le> 2))"
    by blast
next
  assume a: "conclusions_variables vrows = (vouts, None)"
  then have ne: "vrows \<noteq> []"
    by (auto simp add: conclusions_variables_def raise_def)
  with a have s: "seq (map (\<lambda>(name, val, r). print_conclusions_variables_sensibility_analysis name r)
                 (filter (\<lambda>(name, val, r). val = 0) vrows)) = (vouts, None)"
    by (simp add: conclusions_variables_def)
  from seq_map_ok [OF s]
  show "vouts = concat (map (\<lambda>(name, val, r).
                if val = 0 then fst (print_conclusions_variables_sensibility_analysis name r)
                else []) vrows)"
    by (simp add: concat_map_filter_if case_prod_unfold)
  from seq_map_ok [OF s]
  show "\<forall>(name, val, r) \<in> set vrows. val = 0 \<longrightarrow>
            length (fst (print_conclusions_variables_sensibility_analysis name r)) = 1"
    by (auto simp add: print_variables_ok_length)
qed

theorem conclusions_for_binding_rows_witness:
  "conclusions_constraints
      [(''c01_production_Arn'', 0, - (2 / 10)), (''c02_demand_Ams'', 1, 0), (''c03_fixed_Arn_Ams'', 0, 6 / 10)]
      [''Gou'', ''Arn'']
    = ([Print [S ''The total transportation cost would be reduced by'', N (2 / 10),
               S ''euros for each additional ton available in'', S ''Arn'']], None)
   \<and> conclusions_variables
      [(''x('' @ [quote] @ ''Arn'' @ [quote] @ '',_'' @ [quote] @ ''Ams'' @ [quote] @ '')'', 0, 6 / 10),
       (''x('' @ [quote] @ ''Gou'' @ [quote] @ '',_'' @ [quote] @ ''Ams'' @ [quote] @ '')'', 4, 0)]
    = ([Print [S ''The total cost would be increased in'', N (6 / 10),
               S ''euros for each ton supply from'', S ''Arn'', S ''to'', S ''Ams'']], None)"
  using conclusions_for_binding_rows [of
      "[(''c01_production_Arn'', 0, - (2 / 10)), (''c02_demand_Ams'', 1, 0), (''c03_fixed_Arn_Ams'', 0, 6 / 10)]"
      "[''Gou'', ''Arn'']"
      "[Print [S ''The total transportation cost would be reduced by'', N (2 / 10),
               S ''euros for each additional ton available in'', S ''Arn'']]"
      "[(''x('' @ [quote] @ ''Arn'' @ [quote] @ '',_'' @ [quote] @ ''Ams'' @ [quote] @ '')'', 0, 6 / 10),
       (''x('' @ [quote] @ ''Gou'' @ [quote] @ '',_'' @ [quote] @ ''Ams'' @ [quote] @ '')'', 4, 0)]"
      "[Print [S ''The total cost would be increased in'', N (6 / 10),
               S ''euros for each ton supply from'', S ''Arn'', S ''to'', S ''Ams'']]"]
  by (simp add: conclusions_constraints_def conclusions_variables_def seq_def then_run_def say_def
      constraint_number_of_def digit_value_def location_of_def quote_def
      print_conclusions_constraints_sensibility_analysis_def
      print_conclusions_variables_sensibility_analysis_def)

text \<open>
  Claim C7. The statement follows the sign of the shadow price or of the reduced cost:
  below zero it says "reduced by" with the absolute value, above zero it says "increased
  in" with the value, and at zero it says "remain equal". For a constraint this holds for
  every name with a number of at most 2, in both branches (\<open>w\<close> is "available in" or
  "supply at"); for a variable it holds whenever the name holds two codes.
\<close>

theorem statement_direction_matches_sign:
  "(constraint_number_of constraint_name = Inr n \<and> n \<le> 2 \<longrightarrow>
      (\<exists>w. print_conclusions_constraints_sensibility_analysis constraint_name p sources =
         (if p < 0 then
            say [S ''The total transportation cost would be reduced by'', N \<bar>p\<bar>,
                 S (''euros for each additional ton '' @ w), S (location_of constraint_name)]
          else if p > 0 then
            say [S ''The total transportation cost would be increased in'', N p,
                 S (''euros for each additional ton '' @ w), S (location_of constraint_name)]
          else
            say [S (''The total transportation cost would remain equal for each additional ton '' @ w),
                 S (location_of constraint_name)])))
   \<and> (findall None variable_name = source # customer # rest \<longrightarrow>
        print_conclusions_variables_sensibility_analysis variable_name r =
         (if r < 0 then
            say [S ''The total transportation cost would be reduced by'', N \<bar>r\<bar>,
                 S ''euros for each ton supply from'', S source, S ''to'', S customer]
          else if r > 0 then
            say [S ''The total cost would be increased in'', N r,
                 S ''euros for each ton supply from'', S source, S ''to'', S customer]
          else
            say [S ''The total transportation cost would remain equal for each ton supply from'',
                 S source, S ''to'', S customer]))"
proof (intro conjI impI)
  assume h: "constraint_number_of constraint_name = Inr n \<and> n \<le> 2"
  show "\<exists>w. print_conclusions_constraints_sensibility_analysis constraint_name p sources =
         (if p < 0 then
            say [S ''The total transportation cost would be reduced by'', N \<bar>p\<bar>,
                 S (''euros for each additional ton '' @ w), S (location_of constraint_name)]
          else if p > 0 then
            say [S ''The total transportation cost would be increased in'', N p,
                 S (''euros for each additional ton '' @ w), S (location_of constraint_name)]
          else
            say [S (''The total transportation cost would remain equal for each additional ton '' @ w),
                 S (location_of constraint_name)])"
  proof (cases "location_of constraint_name \<in> set sources")
    case True
    with h show ?thesis
      by (intro exI [of _ "''available in''"])
         (simp add: print_conclusions_constraints_sensibility_analysis_def)
  next
    case False
    with h show ?thesis
      by (intro exI [of _ "''supply at''"])
         (simp add: print_conclusions_constraints_sensibility_analysis_def)
  qed
next
  assume "findall None variable_name = source # customer # rest"
  then show "print_conclusions_variables_sensibility_analysis variable_name r =
         (if r < 0 then
            say [S ''The total transportation cost would be reduced by'', N \<bar>r\<bar>,
                 S ''euros for each ton supply from'', S source, S ''to'', S customer]
          else if r > 0 then
            say [S ''The total cost would be increased in'', N r,
                 S ''euros for each ton supply from'', S source, S ''to'', S customer]
          else
            say [S ''The total transportation cost would remain equal for each ton supply from'',
                 S source, S ''to'', S customer])"
    by (simp add: print_conclusions_variables_sensibility_analysis_def)
qed

theorem statement_direction_matches_sign_witness:
  "constraint_number_of ''c01_production_Arn'' = Inr 1 \<and> (1::nat) \<le> 2
   \<and> print_conclusions_constraints_sensibility_analysis ''c01_production_Arn'' (- (2 / 10)) [''Gou'', ''Arn'']
       = say [S ''The total transportation cost would be reduced by'', N (2 / 10),
              S ''euros for each additional ton available in'', S ''Arn'']
   \<and> findall None (''x('' @ [quote] @ ''Arn'' @ [quote] @ '',_'' @ [quote] @ ''Ams'' @ [quote] @ '')'')
       = ''Arn'' # ''Ams'' # []
   \<and> print_conclusions_variables_sensibility_analysis
        (''x('' @ [quote] @ ''Arn'' @ [quote] @ '',_'' @ [quote] @ ''Ams'' @ [quote] @ '')'') (6 / 10)
       = say [S ''The total cost would be increased in'', N (6 / 10),
              S ''euros for each ton supply from'', S ''Arn'', S ''to'', S ''Ams'']"
  using statement_direction_matches_sign [of "''c01_production_Arn''" 1 "- (2 / 10)" "[''Gou'', ''Arn'']"
      "''x('' @ [quote] @ ''Arn'' @ [quote] @ '',_'' @ [quote] @ ''Ams'' @ [quote] @ '')''"
      "''Arn''" "''Ams''" "[]" "6 / 10"]
  by (simp add: constraint_number_of_def digit_value_def location_of_def quote_def
      print_conclusions_constraints_sensibility_analysis_def
      print_conclusions_variables_sensibility_analysis_def)

text \<open>
  Claim C8. A fixed-flow constraint, named \<^verbatim>\<open>c03_fixed_<s>_<c>\<close>, gets no conclusion,
  whatever its shadow price is: the function prints nothing and raises nothing. The same
  holds for every name whose number is above 2, and a name for which something is printed
  has a number of at most 2.
\<close>

theorem fixed_flow_constraints_not_interpreted:
  "print_conclusions_constraints_sensibility_analysis
     (translate LpAffineExpression_illegal_chars (''c03_fixed_'' @ s @ ''_'' @ c)) shadow_price sources
   = ([], None)
   \<and> (\<forall>n. constraint_number_of constraint_name = Inr n \<and> 2 < n \<longrightarrow>
         print_conclusions_constraints_sensibility_analysis constraint_name shadow_price sources = ([], None))
   \<and> (fst (print_conclusions_constraints_sensibility_analysis constraint_name shadow_price sources) \<noteq> [] \<longrightarrow>
         (\<exists>n. constraint_number_of constraint_name = Inr n \<and> n \<le> 2))"
proof (intro conjI allI impI)
  show "print_conclusions_constraints_sensibility_analysis
     (translate LpAffineExpression_illegal_chars (''c03_fixed_'' @ s @ ''_'' @ c)) shadow_price sources
   = ([], None)"
    unfolding print_conclusions_constraints_sensibility_analysis_def constraint_number_of_fixed
    by simp
next
  fix n
  assume "constraint_number_of constraint_name = Inr n \<and> 2 < n"
  then show "print_conclusions_constraints_sensibility_analysis constraint_name shadow_price sources = ([], None)"
    by (simp add: print_conclusions_constraints_sensibility_analysis_def)
next
  assume "fst (print_conclusions_constraints_sensibility_analysis constraint_name shadow_price sources) \<noteq> []"
  then show "\<exists>n. constraint_number_of constraint_name = Inr n \<and> n \<le> 2"
    by (auto simp add: print_conclusions_constraints_sensibility_analysis_def raise_def Let_def
        split: sum.splits if_splits)
qed

theorem fixed_flow_constraints_not_interpreted_witness:
  "print_conclusions_constraints_sensibility_analysis ''c03_fixed_Arn_Ams'' (6 / 10) [''Gou'', ''Arn''] = ([], None)
   \<and> constraint_number_of ''c03_fixed_Arn_Ams'' = Inr 3 \<and> (2::nat) < 3
   \<and> fst (print_conclusions_constraints_sensibility_analysis ''c02_demand_Ams'' (6 / 10) [''Gou'', ''Arn'']) \<noteq> []
   \<and> (\<exists>n. constraint_number_of ''c02_demand_Ams'' = Inr n \<and> n \<le> 2)"
  using fixed_flow_constraints_not_interpreted [of "''Arn''" "''Ams''" "6 / 10" "[''Gou'', ''Arn'']" "''c02_demand_Ams''"]
    fixed_flow_constraints_not_interpreted [of "''Arn''" "''Ams''" "6 / 10" "[''Gou'', ''Arn'']" "''c03_fixed_Arn_Ams''"]
  by (simp add: translate_def LpAffineExpression_illegal_chars_def constraint_number_of_def digit_value_def
     print_conclusions_constraints_sensibility_analysis_def say_def location_of_def)

text \<open>
  Claim C9 as it is written fails. PuLP replaces the hyphen of the code \<^verbatim>\<open>a-b\<close> by an
  underscore in the name of the variable, and parsing the name gives \<^verbatim>\<open>a_b\<close>.
\<close>

theorem hyphen_code_not_recovered:
  "build hyphen_data = Inr hyphen_formulation
   \<and> map_of (vQuantityExchanged hyphen_formulation) (''a-b'', ''Ams'') = Some (quantity (''a-b'', ''Ams''))
   \<and> length ''a-b'' = 3 \<and> length ''Ams'' = 3
   \<and> findall None (vname (quantity (''a-b'', ''Ams''))) = [''a_b'', ''Ams'']
   \<and> [''a_b'', ''Ams''] \<noteq> [''a-b'', ''Ams'']"
  unfolding vname_hyphen
  by (simp add: build_hyphen hyphen_formulation_def quote_def)

text \<open>
  Claim C9, as amended. For a lane of a built model whose two codes are three characters
  long and made of printable characters other than the single quote, the backslash and
  the characters PuLP replaces in the name of a variable (\<^verbatim>\<open>-+[] >/\<close>, the space among
  them), the pattern finds exactly the two codes in the name of the variable of the lane,
  the source first.
\<close>

theorem variable_name_round_trip:
  assumes "build d = Inr f" and "map_of (vQuantityExchanged f) (s, c) = Some v"
    and "length s = 3" and "length c = 3"
    and "\<forall>ch\<in>set (s @ c). printable ch \<and> ch \<noteq> quote \<and> ch \<noteq> backslash \<and> ch \<notin> set LpElement_illegal_chars"
  shows "findall None (vname v) = [s, c]"
proof -
  from assms(2) have "v = quantity (s, c)"
    by (simp add: build_Inr(1) [OF assms(1)] map_of_LpVariable_dicts quantity_def split: if_splits)
  with vname_quantity_plain [OF assms(5)] findall_plain_name [OF assms(3,4)] assms(5)
  show ?thesis by simp
qed

theorem variable_name_round_trip_witness:
  "build example_data = Inr example_formulation
   \<and> map_of (vQuantityExchanged example_formulation) (''Gou'', ''Ams'') = Some (quantity (''Gou'', ''Ams''))
   \<and> length ''Gou'' = 3 \<and> length ''Ams'' = 3
   \<and> findall None (vname (quantity (''Gou'', ''Ams''))) = [''Gou'', ''Ams'']"
proof -
  have m: "map_of (vQuantityExchanged example_formulation) (''Gou'', ''Ams'') = Some (quantity (''Gou'', ''Ams''))"
    by (simp add: example_formulation_def)
  have h: "\<forall>ch\<in>set (''Gou'' @ ''Ams''). printable ch \<and> ch \<noteq> quote \<and> ch \<noteq> backslash
             \<and> ch \<notin> set LpElement_illegal_chars"
    by (simp add: printable_def quote_def backslash_def LpElement_illegal_chars_def)
  from variable_name_round_trip [OF build_example m _ _ h] build_example m show ?thesis by simp
qed

text \<open>
  Claim C10 as it is written fails in its consequence. The name of the demand constraint
  of the customer \<^verbatim>\<open>a-b\<close> ends in \<^verbatim>\<open>a_b\<close>, and the name of the one of \<^verbatim>\<open>Gouda\<close> ends in
  \<^verbatim>\<open>uda\<close>: with the code of the customer in the list of the sources, both get the
  statement of a demand.
\<close>

theorem customer_in_sources_narrated_as_demand:
  "''a-b'' \<in> set [''a-b'']
   \<and> translate LpAffineExpression_illegal_chars (''c02_demand_'' @ ''a-b'') = ''c02_demand_a_b''
   \<and> print_conclusions_constraints_sensibility_analysis ''c02_demand_a_b'' 1 [''a-b'']
      = say [S ''The total transportation cost would be increased in'', N 1,
             S ''euros for each additional ton supply at'', S ''a_b'']
   \<and> ''Gouda'' \<in> set [''Gouda'']
   \<and> translate LpAffineExpression_illegal_chars (''c02_demand_'' @ ''Gouda'') = ''c02_demand_Gouda''
   \<and> print_conclusions_constraints_sensibility_analysis ''c02_demand_Gouda'' 1 [''Gouda'']
      = say [S ''The total transportation cost would be increased in'', N 1,
             S ''euros for each additional ton supply at'', S ''uda'']"
  by (simp add: translate_def LpAffineExpression_illegal_chars_def
      print_conclusions_constraints_sensibility_analysis_def constraint_number_of_def digit_value_def
      location_of_def)

text \<open>
  Claim C10, as amended. For a name with a number of at most 2, the statement is the one
  about "additional ton available in" when the last three characters of the name are in
  the list of the sources, and the one about "additional ton supply at" otherwise; the
  number, 1 or 2, plays no part. For the demand constraint of a customer whose code is
  three characters long, these last three characters are the code with the characters
  PuLP replaces in the name of a constraint (\<^verbatim>\<open>-+[]\<close> and the space) written as
  underscores. So the demand constraint of a customer whose code is three characters
  long, holds none of these characters and is in the list of the sources gets the
  statement of a source.
\<close>

theorem narrative_chosen_by_membership:
  "(constraint_number_of constraint_name = Inr n \<and> n \<le> 2 \<longrightarrow>
      print_conclusions_constraints_sensibility_analysis constraint_name p sources =
        (if p < 0 then
           say [S ''The total transportation cost would be reduced by'', N \<bar>p\<bar>,
                S (if location_of constraint_name \<in> set sources
                   then ''euros for each additional ton available in''
                   else ''euros for each additional ton supply at''),
                S (location_of constraint_name)]
         else if p > 0 then
           say [S ''The total transportation cost would be increased in'', N p,
                S (if location_of constraint_name \<in> set sources
                   then ''euros for each additional ton available in''
                   else ''euros for each additional ton supply at''),
                S (location_of constraint_name)]
         else
           say [S (if location_of constraint_name \<in> set sources
                   then ''The total transportation cost would remain equal for each additional ton available in''
                   else ''The total transportation cost would remain equal for each additional ton supply at''),
                S (location_of constraint_name)]))
   \<and> (length c = 3 \<longrightarrow>
        location_of (translate LpAffineExpression_illegal_chars (''c02_demand_'' @ c))
          = translate LpAffineExpression_illegal_chars c
        \<and> print_conclusions_constraints_sensibility_analysis
            (translate LpAffineExpression_illegal_chars (''c02_demand_'' @ c)) p sources =
        (if p < 0 then
           say [S ''The total transportation cost would be reduced by'', N \<bar>p\<bar>,
                S (if translate LpAffineExpression_illegal_chars c \<in> set sources
                   then ''euros for each additional ton available in''
                   else ''euros for each additional ton supply at''),
                S (translate LpAffineExpression_illegal_chars c)]
         else if p > 0 then
           say [S ''The total transportation cost would be increased in'', N p,
                S (if translate LpAffineExpression_illegal_chars c \<in> set sources
                   then ''euros for each additional ton available in''
                   else ''euros for each additional ton supply at''),
                S (translate LpAffineExpression_illegal_chars c)]
         else
           say [S (if translate LpAffineExpression_illegal_chars c \<in> set sources
                   then ''The total transportation cost would remain equal for each additional ton available in''
                   else ''The total transportation cost would remain equal for each additional ton supply at''),
                S (translate LpAffineExpression_illegal_chars c)]))
   \<and> (length c = 3 \<and> c \<in> set sources \<and> (\<forall>ch\<in>set c. ch \<notin> set LpAffineExpression_illegal_chars) \<longrightarrow>
        print_conclusions_constraints_sensibility_analysis
            (translate LpAffineExpression_illegal_chars (''c02_demand_'' @ c)) p sources =
        (if p < 0 then
           say [S ''The total transportation cost would be reduced by'', N \<bar>p\<bar>,
                S ''euros for each additional ton available in'', S c]
         else if p > 0 then
           say [S ''The total transportation cost would be increased in'', N p,
                S ''euros for each additional ton available in'', S c]
         else
           say [S ''The total transportation cost would remain equal for each additional ton available in'',
                S c]))"
proof -
  have general: "print_conclusions_constraints_sensibility_analysis name p sources =
        (if p < 0 then
           say [S ''The total transportation cost would be reduced by'', N \<bar>p\<bar>,
                S (if location_of name \<in> set sources
                   then ''euros for each additional ton available in''
                   else ''euros for each additional ton supply at''),
                S (location_of name)]
         else if p > 0 then
           say [S ''The total transportation cost would be increased in'', N p,
                S (if location_of name \<in> set sources
                   then ''euros for each additional ton available in''
                   else ''euros for each additional ton supply at''),
                S (location_of name)]
         else
           say [S (if location_of name \<in> set sources
                   then ''The total transportation cost would remain equal for each additional ton available in''
                   else ''The total transportation cost would remain equal for each additional ton supply at''),
                S (location_of name)])"
    if "constraint_number_of name = Inr k" and "k \<le> 2" for name k
    using that by (simp add: print_conclusions_constraints_sensibility_analysis_def)
  have loc: "location_of (translate LpAffineExpression_illegal_chars (''c02_demand_'' @ c))
          = translate LpAffineExpression_illegal_chars c" if "length c = 3"
    using that by (simp add: location_of_def translate_def)
  have two: "(2::nat) \<le> 2" by simp
  note demand = general [OF constraint_number_of_demand two, of c]
  show ?thesis
  proof (intro conjI impI)
    assume "constraint_number_of constraint_name = Inr n \<and> n \<le> 2"
    then show "print_conclusions_constraints_sensibility_analysis constraint_name p sources =
        (if p < 0 then
           say [S ''The total transportation cost would be reduced by'', N \<bar>p\<bar>,
                S (if location_of constraint_name \<in> set sources
                   then ''euros for each additional ton available in''
                   else ''euros for each additional ton supply at''),
                S (location_of constraint_name)]
         else if p > 0 then
           say [S ''The total transportation cost would be increased in'', N p,
                S (if location_of constraint_name \<in> set sources
                   then ''euros for each additional ton available in''
                   else ''euros for each additional ton supply at''),
                S (location_of constraint_name)]
         else
           say [S (if location_of constraint_name \<in> set sources
                   then ''The total transportation cost would remain equal for each additional ton available in''
                   else ''The total transportation cost would remain equal for each additional ton supply at''),
                S (location_of constraint_name)])"
      using general by blast
  next
    assume l: "length c = 3"
    from loc [OF l] show "location_of (translate LpAffineExpression_illegal_chars (''c02_demand_'' @ c))
          = translate LpAffineExpression_illegal_chars c" .
    show "print_conclusions_constraints_sensibility_analysis
            (translate LpAffineExpression_illegal_chars (''c02_demand_'' @ c)) p sources =
        (if p < 0 then
           say [S ''The total transportation cost would be reduced by'', N \<bar>p\<bar>,
                S (if translate LpAffineExpression_illegal_chars c \<in> set sources
                   then ''euros for each additional ton available in''
                   else ''euros for each additional ton supply at''),
                S (translate LpAffineExpression_illegal_chars c)]
         else if p > 0 then
           say [S ''The total transportation cost would be increased in'', N p,
                S (if translate LpAffineExpression_illegal_chars c \<in> set sources
                   then ''euros for each additional ton available in''
                   else ''euros for each additional ton supply at''),
                S (translate LpAffineExpression_illegal_chars c)]
         else
           say [S (if translate LpAffineExpression_illegal_chars c \<in> set sources
                   then ''The total transportation cost would remain equal for each additional ton available in''
                   else ''The total transportation cost would remain equal for each additional ton supply at''),
                S (translate LpAffineExpression_illegal_chars c)])"
      using demand unfolding loc [OF l] .
  next
    assume h: "length c = 3 \<and> c \<in> set sources \<and> (\<forall>ch\<in>set c. ch \<notin> set LpAffineExpression_illegal_chars)"
    then have t: "translate LpAffineExpression_illegal_chars c = c"
      by (simp add: translate_keep)
    from h have l: "length c = 3" by simp
    from demand [unfolded loc [OF l] t] h
    show "print_conclusions_constraints_sensibility_analysis
            (translate LpAffineExpression_illegal_chars (''c02_demand_'' @ c)) p sources =
        (if p < 0 then
           say [S ''The total transportation cost would be reduced by'', N \<bar>p\<bar>,
                S ''euros for each additional ton available in'', S c]
         else if p > 0 then
           say [S ''The total transportation cost would be increased in'', N p,
                S ''euros for each additional ton available in'', S c]
         else
           say [S ''The total transportation cost would remain equal for each additional ton available in'',
                S c])"
      by simp
  qed
qed

theorem narrative_chosen_by_membership_witness:
  "constraint_number_of ''c02_demand_Ams'' = Inr 2 \<and> (2::nat) \<le> 2
   \<and> print_conclusions_constraints_sensibility_analysis ''c02_demand_Ams'' 1 [''Gou'', ''Arn'', ''Ber'']
      = say [S ''The total transportation cost would be increased in'', N 1,
             S ''euros for each additional ton supply at'', S ''Ams'']
   \<and> length ''Ber'' = 3 \<and> ''Ber'' \<in> set [''Gou'', ''Arn'', ''Ber'']
   \<and> translate LpAffineExpression_illegal_chars (''c02_demand_'' @ ''Ber'') = ''c02_demand_Ber''
   \<and> print_conclusions_constraints_sensibility_analysis ''c02_demand_Ber'' 1 [''Gou'', ''Arn'', ''Ber'']
      = say [S ''The total transportation cost would be increased in'', N 1,
             S ''euros for each additional ton available in'', S ''Ber'']"
proof -
  have h: "\<forall>ch\<in>set ''Ber''. ch \<notin> set LpAffineExpression_illegal_chars"
    by (simp add: LpAffineExpression_illegal_chars_def)
  from narrative_chosen_by_membership [of "''c02_demand_Ams''" 2 1 "[''Gou'', ''Arn'', ''Ber'']" "''Ber''"] h
  show ?thesis
    by (simp add: constraint_number_of_def digit_value_def location_of_def translate_def
      LpAffineExpression_illegal_chars_def)
qed

end
